theory Spec2Isabelle
  imports Main
begin

section \<open>Data model of \<^verbatim>\<open>integration-cli/daemon.go\<close>\<close>

text \<open>
  A Go \<^verbatim>\<open>error\<close> is modelled by its message; \<^verbatim>\<open>nil\<close> is \<open>None\<close>.
  Messages built by \<^verbatim>\<open>errors.New\<close> and \<^verbatim>\<open>fmt.Errorf\<close> are written out, messages of
  errors that come from the operating system or a library are inputs.
\<close>

type_synonym error = string

text \<open>
  How a call of a function of the fixture ends: it returns a value, it panics (a nil
  pointer is dereferenced), a \<^verbatim>\<open>c.Assert\<close> fails and stops the test, it blocks for ever in
  a call that never completes, or the events supplied to the model are used up while
  the function is still waiting in a \<^verbatim>\<open>select\<close>.
\<close>

datatype 'a outcome = Return 'a | Panic | Abort | Hang | Await

text \<open>
  \<^verbatim>\<open>*exec.Cmd\<close>: the path of the binary, the argument vector (\<^verbatim>\<open>Args\<close>, the binary first,
  as \<^verbatim>\<open>exec.Command\<close> builds it), and \<^verbatim>\<open>Process\<close>, which is \<^verbatim>\<open>nil\<close> until \<^verbatim>\<open>cmd.Start\<close>
  succeeds and the pid afterwards.
\<close>

record Cmd =
  Path :: string
  Args :: "string list"
  Process :: "int option"

text \<open>
  The struct \<^verbatim>\<open>Daemon\<close>. The field \<^verbatim>\<open>id\<close> is \<open>id_d\<close>. \<^verbatim>\<open>logFile\<close> is an open file, named by
  its path, or \<^verbatim>\<open>nil\<close>; \<^verbatim>\<open>wait\<close> is a channel or \<^verbatim>\<open>nil\<close>. The test context \<^verbatim>\<open>c\<close> and the
  streams \<^verbatim>\<open>stdin\<close>, \<^verbatim>\<open>stdout\<close>, \<^verbatim>\<open>stderr\<close> (never assigned in this file) are left out, and
  so is what \<^verbatim>\<open>c.Logf\<close> writes to the test log.
\<close>

record Daemon =
  Command :: string
  GlobalFlags :: "string list"
  id_d :: string
  logFile :: "string option"
  folder :: string
  root :: string
  cmd :: "Cmd option"
  storageDriver :: string
  wait :: "unit option"
  userlandProxy :: bool
  useDefaultHost :: bool
  useDefaultTLSHost :: bool

section \<open>Stop and Kill\<close>

text \<open>
  What a \<^verbatim>\<open>select\<close> of \<^verbatim>\<open>Stop\<close> yields: a value received from \<^verbatim>\<open>d.wait\<close> (the result of
  \<^verbatim>\<open>cmd.Wait\<close>, so the process has exited), or the timer of the other case
  (\<^verbatim>\<open>time.After(15 * time.Second)\<close> in the first loop, the one-second \<^verbatim>\<open>tick\<close> in the
  second).
\<close>

datatype selected = WaitFired "error option" | TimerFired

text \<open>
  The environment of one call of \<^verbatim>\<open>Stop\<close> or \<^verbatim>\<open>Kill\<close>: the result of the
  \<^verbatim>\<open>Process.Signal(os.Interrupt)\<close> call made while the counter \<^verbatim>\<open>i\<close> has a given value,
  what the first \<^verbatim>\<open>select\<close> yields, what the \<^verbatim>\<open>select\<close> of the second loop yields while
  \<^verbatim>\<open>i\<close> has a given value, and the results of \<^verbatim>\<open>Process.Kill\<close> and \<^verbatim>\<open>os.Remove\<close>.
\<close>

record os_env =
  signal_result :: "int \<Rightarrow> error option"
  window :: selected
  escalation :: "int \<Rightarrow> selected"
  kill_result :: "error option"
  remove_result :: "error option"

text \<open>What a call does to the world and what it observes, in order.\<close>

datatype event =
    SendInterrupt
  | RecvWait "error option"
  | After15s
  | TickRecv
  | ProcessKill
  | Remove string
  | CloseLog "string option"

text \<open>
  \<^verbatim>\<open>d.cmd.Process.Signal(os.Interrupt)\<close> and \<^verbatim>\<open>d.cmd.Process.Kill()\<close>: the methods of
  \<^verbatim>\<open>os.Process\<close> read the fields of their receiver, so a \<^verbatim>\<open>nil\<close> \<^verbatim>\<open>Process\<close> panics.
\<close>

definition Signal :: "os_env \<Rightarrow> Daemon \<Rightarrow> int \<Rightarrow> error option outcome" where
  "Signal e d i =
     (case cmd d of
        None \<Rightarrow> Panic
      | Some c \<Rightarrow> (case Process c of None \<Rightarrow> Panic | Some pid \<Rightarrow> Return (signal_result e i)))"

definition ProcessKillCall :: "os_env \<Rightarrow> Daemon \<Rightarrow> error option outcome" where
  "ProcessKillCall e d =
     (case cmd d of
        None \<Rightarrow> Panic
      | Some c \<Rightarrow> (case Process c of None \<Rightarrow> Panic | Some pid \<Rightarrow> Return (kill_result e)))"

text \<open>
  The last two statements of \<^verbatim>\<open>Kill\<close> (lines 263 to 272) and of \<^verbatim>\<open>Stop\<close> (lines 325 to
  334), which are the same text: kill the process and return the error if there is one,
  then remove \<^verbatim>\<open><folder>/docker.pid\<close> and return the error if there is one, else \<^verbatim>\<open>nil\<close>.
\<close>

definition killAndRemove :: "os_env \<Rightarrow> Daemon \<Rightarrow> event list \<Rightarrow> error option outcome \<times> event list" where
  "killAndRemove e d tr =
     (case ProcessKillCall e d of
        Return (Some err) \<Rightarrow> (Return (Some err), tr @ [ProcessKill])
      | Return None \<Rightarrow>
          (case remove_result e of
             Some err \<Rightarrow> (Return (Some err), tr @ [ProcessKill, Remove (folder d @ ''/docker.pid'')])
           | None \<Rightarrow> (Return None, tr @ [ProcessKill, Remove (folder d @ ''/docker.pid'')]))
      | _ \<Rightarrow> (Panic, tr))"

text \<open>
  \<^verbatim>\<open>Kill\<close>. The deferred function closes the log file and sets \<^verbatim>\<open>d.cmd = nil\<close> on every
  path behind the guard.
\<close>

definition Kill :: "os_env \<Rightarrow> Daemon \<Rightarrow> error option outcome \<times> Daemon \<times> event list" where
  "Kill e d =
     (if cmd d = None \<or> wait d = None then (Return (Some ''daemon not started''), d, [])
      else (case killAndRemove e d [] of
              (r, tr) \<Rightarrow> (r, d\<lparr>cmd := None\<rparr>, tr @ [CloseLog (logFile d)])))"

text \<open>
  The loop \<^verbatim>\<open>out2\<close> of \<^verbatim>\<open>Stop\<close>, with the counter \<^verbatim>\<open>i\<close> and the events so far as its state.
\<close>

function out2 :: "os_env \<Rightarrow> Daemon \<Rightarrow> int \<Rightarrow> event list \<Rightarrow> error option outcome \<times> event list" where
  "out2 e d i tr =
     (case escalation e i of
        WaitFired err \<Rightarrow> (Return err, tr @ [RecvWait err])
      | TimerFired \<Rightarrow>
          (if i + 1 > 4 then killAndRemove e d (tr @ [TickRecv])
           else (case Signal e d (i + 1) of
                   Return None \<Rightarrow> out2 e d (i + 1) (tr @ [TickRecv, SendInterrupt])
                 | Return (Some err) \<Rightarrow>
                     (Return (Some (''could not send signal: '' @ err)), tr @ [TickRecv, SendInterrupt])
                 | _ \<Rightarrow> (Panic, tr @ [TickRecv]))))"
  by pat_completeness auto
termination
  by (relation "measure (\<lambda>(e, d, i, tr). nat (5 - i))") auto

declare out2.simps [simp del]

text \<open>The loop \<^verbatim>\<open>out1\<close>: one \<^verbatim>\<open>select\<close>, both cases of which leave the loop.\<close>

definition out1 :: "os_env \<Rightarrow> Daemon \<Rightarrow> event list \<Rightarrow> error option outcome \<times> event list" where
  "out1 e d tr =
     (case window e of
        WaitFired err \<Rightarrow> (Return err, tr @ [RecvWait err])
      | TimerFired \<Rightarrow> out2 e d 1 (tr @ [After15s]))"

text \<open>\<^verbatim>\<open>Stop\<close>: the guard, the deferred cleanup, \<^verbatim>\<open>i := 1\<close>, the first signal, the two loops.\<close>

definition Stop :: "os_env \<Rightarrow> Daemon \<Rightarrow> error option outcome \<times> Daemon \<times> event list" where
  "Stop e d =
     (if cmd d = None \<or> wait d = None then (Return (Some ''daemon not started''), d, [])
      else (case (case Signal e d 1 of
                    Return None \<Rightarrow> out1 e d [SendInterrupt]
                  | Return (Some err) \<Rightarrow>
                      (Return (Some (''could not send signal: '' @ err)), [SendInterrupt])
                  | _ \<Rightarrow> (Panic, [])) of
              (r, tr) \<Rightarrow> (r, d\<lparr>cmd := None\<rparr>, tr @ [CloseLog (logFile d)])))"

section \<open>Library functions used by the fixture\<close>

text \<open>\<^verbatim>\<open>strings.HasPrefix\<close> and \<^verbatim>\<open>strings.Contains\<close> of the Go standard library.\<close>

fun HasPrefix :: "string \<Rightarrow> string \<Rightarrow> bool" where
  "HasPrefix s [] = True"
| "HasPrefix [] (p # ps) = False"
| "HasPrefix (c # cs) (p # ps) = (c = p \<and> HasPrefix cs ps)"

fun Contains :: "string \<Rightarrow> string \<Rightarrow> bool" where
  "Contains [] substr = (substr = [])"
| "Contains (c # cs) substr = (HasPrefix (c # cs) substr \<or> Contains cs substr)"

text \<open>
  \<^verbatim>\<open>strconv.ParseBool\<close> of the Go standard library returns a value and an error; the value
  is \<^verbatim>\<open>false\<close> when the error is not \<^verbatim>\<open>nil\<close>.
\<close>

definition ParseBool :: "string \<Rightarrow> bool \<times> error option" where
  "ParseBool str =
     (if str \<in> set [''1'', ''t'', ''T'', ''TRUE'', ''true'', ''True''] then (True, None)
      else if str \<in> set [''0'', ''f'', ''F'', ''FALSE'', ''false'', ''False''] then (False, None)
      else (False, Some ''invalid syntax''))"

text \<open>The verbs \<^verbatim>\<open>%t\<close> and \<^verbatim>\<open>%d\<close> of \<^verbatim>\<open>fmt.Sprintf\<close>.\<close>

definition fmt_t :: "bool \<Rightarrow> string" where
  "fmt_t b = (if b then ''true'' else ''false'')"

fun digits :: "nat \<Rightarrow> string" where
  "digits n = (if n < 10 then [''0123456789'' ! n] else digits (n div 10) @ [''0123456789'' ! (n mod 10)])"

definition fmt_d :: "int \<Rightarrow> string" where
  "fmt_d n = (if n < 0 then ''-'' @ digits (nat (- n)) else digits (nat n))"

text \<open>The remainder \<^verbatim>\<open>%\<close> of Go truncates towards zero: its sign is the dividend's.\<close>

definition go_rem :: "int \<Rightarrow> int \<Rightarrow> int" where
  "go_rem a b = (if a < 0 then - ((- a) mod \<bar>b\<bar>) else a mod \<bar>b\<bar>)"

section \<open>The environment\<close>

text \<open>
  What the fixture reads from its surroundings and does not change: the environment
  variables, the global \<^verbatim>\<open>dockerBinary\<close> and the constants of the package \<^verbatim>\<open>opts\<close> (declared
  in other files), \<^verbatim>\<open>filepath.Join\<close> on two elements, and \<^verbatim>\<open>json.Unmarshal\<close> into the struct
  \<^verbatim>\<open>Info\<close>, which gives the field \<^verbatim>\<open>DockerRootDir\<close> or an error.
\<close>

record sys =
  DEST :: string
  DOCKER_USERLANDPROXY :: string
  DOCKER_GRAPHDRIVER :: string
  DOCKER_REMAP_ROOT :: string
  dockerBinary :: string
  DefaultHTTPHost :: string
  DefaultTLSHTTPPort :: int
  DefaultUnixSocket :: string
  Join :: "string \<Rightarrow> string \<Rightarrow> string"
  Unmarshal :: "string \<Rightarrow> error + string"

text \<open>
  The inputs of one call of \<^verbatim>\<open>NewDaemon\<close>: the clock, and what \<^verbatim>\<open>filepath.Abs\<close> and
  \<^verbatim>\<open>os.MkdirAll\<close> return for a path.
\<close>

record new_in =
  UnixNano :: int
  Abs_result :: "string \<Rightarrow> error + string"
  MkdirAll_result :: "string \<Rightarrow> error option"

text \<open>
  The inputs of one call of \<^verbatim>\<open>getClientConfig\<close>: the errors of \<^verbatim>\<open>tlsconfig.Client\<close> and of
  \<^verbatim>\<open>sockets.ConfigureTransport\<close>.
\<close>

record conf_in =
  tlsconfig_Client :: "error option"
  ConfigureTransport :: "error option"

text \<open>
  The result of \<^verbatim>\<open>client.Do\<close>. The client has no timeout, so the call returns when the
  transport does: never, or after some milliseconds with an error or with a response,
  of which the model keeps the status code.
\<close>

datatype do_result = NeverCompletes | Completes nat "error + int"

text \<open>
  The inputs of one call of \<^verbatim>\<open>queryRootDir\<close>; \<^verbatim>\<open>readBody\<close> (declared in another file)
  gives the bytes of the body or an error.
\<close>

record info_in =
  info_conf :: conf_in
  info_NewRequest :: "error option"
  info_Do :: do_result
  readBody :: "error + string"

text \<open>The inputs of the body of the \<^verbatim>\<open>tick\<close> case of the readiness loop.\<close>

record attempt =
  ping_conf :: conf_in
  ping_NewRequest :: "error option"
  ping_Do :: do_result
  info :: info_in

text \<open>
  One iteration of the readiness loop: the value of \<^verbatim>\<open>time.Now().Unix()-startTime\<close> at
  its head, and the case its \<^verbatim>\<open>select\<close> takes.
\<close>

datatype chosen = After2s | Tick attempt | WaitRecv "error option"

record iteration =
  elapsed :: int
  choice :: chosen

text \<open>The inputs of one call of \<^verbatim>\<open>Start\<close>.\<close>

record start_in =
  OpenFile_result :: "error option"
  LookPath_result :: "error + string"
  cmd_Start :: "error + int"
  iterations :: "iteration list"

section \<open>NewDaemon, getClientConfig, Start\<close>

definition NewDaemon :: "sys \<Rightarrow> new_in \<Rightarrow> Daemon outcome" where
  "NewDaemon s n =
     (let dest = DEST s in
      if dest = '''' then Abort
      else
        let id = ''d'' @ fmt_d (go_rem (UnixNano n) 100000000);
            dir = Join s dest id
        in case Abs_result n dir of
             Inl err \<Rightarrow> Abort
           | Inr daemonFolder \<Rightarrow>
               let daemonRoot = Join s daemonFolder ''root'' in
               (case MkdirAll_result n daemonRoot of
                  Some err \<Rightarrow> Abort
                | None \<Rightarrow>
                    let userlandProxy0 = True;
                        env = DOCKER_USERLANDPROXY s;
                        userlandProxy1 =
                          (if env \<noteq> '''' then
                             (case ParseBool env of
                                (val, Some err) \<Rightarrow> val
                              | (val, None) \<Rightarrow> userlandProxy0)
                           else userlandProxy0)
                    in Return \<lparr>Command = ''daemon'', GlobalFlags = [], id_d = id,
                         logFile = None, folder = daemonFolder, root = daemonRoot,
                         cmd = None, storageDriver = DOCKER_GRAPHDRIVER s, wait = None,
                         userlandProxy = userlandProxy1, useDefaultHost = False,
                         useDefaultTLSHost = False\<rparr>))"

datatype transport = TLSTransport | PlainTransport

record clientConfig =
  transport :: transport
  scheme :: string
  addr :: string

definition getClientConfig :: "sys \<Rightarrow> Daemon \<Rightarrow> conf_in \<Rightarrow> (error + clientConfig) outcome" where
  "getClientConfig s d q =
     (case (if useDefaultTLSHost d then
              (case tlsconfig_Client q of
                 Some err \<Rightarrow> Inl err
               | None \<Rightarrow>
                   Inr \<lparr>transport = TLSTransport, scheme = ''https'',
                        addr = DefaultHTTPHost s @ '':'' @ fmt_d (DefaultTLSHTTPPort s)\<rparr>)
            else if useDefaultHost d then
              Inr \<lparr>transport = PlainTransport, scheme = ''http'', addr = DefaultUnixSocket s\<rparr>
            else
              Inr \<lparr>transport = PlainTransport, scheme = ''http'',
                   addr = Join s (folder d) ''docker.sock''\<rparr>) of
        Inl err \<Rightarrow> Return (Inl err)
      | Inr cc \<Rightarrow>
          (case ConfigureTransport q of
             Some err \<Rightarrow> Abort
           | None \<Rightarrow> Return (Inr cc)))"

definition sock :: "Daemon \<Rightarrow> string" where
  "sock d = ''unix://'' @ folder d @ ''/docker.sock''"

text \<open>
  The loop over \<^verbatim>\<open>providedArgs\<close> of \<^verbatim>\<open>StartWithLogFile\<close> (lines 160 to 169), with
  \<^verbatim>\<open>foundLog\<close> and \<^verbatim>\<open>foundSd\<close> as its state.
\<close>

fun scanArgs :: "string list \<Rightarrow> bool \<times> bool \<Rightarrow> bool \<times> bool" where
  "scanArgs [] (foundLog, foundSd) = (foundLog, foundSd)"
| "scanArgs (a # as) (foundLog, foundSd) =
     scanArgs as
       (if Contains a ''--log-level'' \<or> Contains a ''-D'' \<or> Contains a ''--debug''
        then True else foundLog,
        if Contains a ''--storage-driver'' then True else foundSd)"

text \<open>The argument vector that \<^verbatim>\<open>StartWithLogFile\<close> assembles (lines 143 to 177).\<close>

definition startArgs :: "sys \<Rightarrow> Daemon \<Rightarrow> string list \<Rightarrow> string list" where
  "startArgs s d providedArgs =
     (let args0 = GlobalFlags d @
            [Command d,
             ''--containerd'', ''/var/run/docker/libcontainerd/docker-containerd.sock'',
             ''--graph'', root d,
             ''--exec-root'', Join s (folder d) ''exec-root'',
             ''--pidfile'', folder d @ ''/docker.pid'',
             ''--userland-proxy='' @ fmt_t (userlandProxy d)];
          args1 = (if \<not> (useDefaultHost d \<or> useDefaultTLSHost d)
                   then args0 @ [''--host'', sock d] else args0);
          args2 = (if DOCKER_REMAP_ROOT s \<noteq> ''''
                   then args1 @ [''--userns-remap'', DOCKER_REMAP_ROOT s] else args1);
          found = scanArgs providedArgs (False, False);
          args3 = (if \<not> fst found then args2 @ [''--debug''] else args2);
          args4 = (if storageDriver d \<noteq> '''' \<and> \<not> snd found
                   then args3 @ [''--storage-driver'', storageDriver d] else args3)
      in args4 @ providedArgs)"

definition queryRootDir :: "sys \<Rightarrow> Daemon \<Rightarrow> info_in \<Rightarrow> (string \<times> error option) outcome" where
  "queryRootDir s d q =
     (case getClientConfig s d (info_conf q) of
        Return (Inl err) \<Rightarrow> Return ('''', Some err)
      | Return (Inr cc) \<Rightarrow>
          (case info_NewRequest q of
             Some err \<Rightarrow> Return ('''', Some err)
           | None \<Rightarrow>
               (case info_Do q of
                  NeverCompletes \<Rightarrow> Hang
                | Completes ms (Inl err) \<Rightarrow> Return ('''', Some err)
                | Completes ms (Inr StatusCode) \<Rightarrow>
                    (case readBody q of
                       Inl err \<Rightarrow> Return ('''', Some err)
                     | Inr b \<Rightarrow>
                         if StatusCode = 200 then
                           (case Unmarshal s b of
                              Inr DockerRootDir \<Rightarrow> Return (DockerRootDir, None)
                            | Inl err \<Rightarrow> Return ('''', Some err))
                         else Return ('''', None))))
      | Panic \<Rightarrow> Panic
      | Abort \<Rightarrow> Abort
      | Hang \<Rightarrow> Hang
      | Await \<Rightarrow> Await)"

text \<open>
  The readiness loop of \<^verbatim>\<open>StartWithLogFile\<close> (lines 201 to 240), one equation per iteration.
  The status code of the response to \<^verbatim>\<open>/_ping\<close> only decides whether a line is logged.
\<close>

fun pollLoop :: "sys \<Rightarrow> Daemon \<Rightarrow> iteration list \<Rightarrow> error option outcome \<times> Daemon" where
  "pollLoop s d [] = (Await, d)"
| "pollLoop s d (it # its) =
     (if elapsed it > 5 then
        (Return (Some (''['' @ id_d d @ ''] Daemon exited and never started'')), d)
      else
        (case choice it of
           After2s \<Rightarrow> (Return (Some (''['' @ id_d d @ ''] timeout: daemon does not respond'')), d)
         | WaitRecv w \<Rightarrow> (Return (Some (''['' @ id_d d @ ''] Daemon exited during startup'')), d)
         | Tick a \<Rightarrow>
             (case getClientConfig s d (ping_conf a) of
                Return (Inl err) \<Rightarrow> (Return (Some err), d)
              | Return (Inr cc) \<Rightarrow>
                  (case ping_NewRequest a of
                     Some err \<Rightarrow> (Abort, d)
                   | None \<Rightarrow>
                       (case ping_Do a of
                          NeverCompletes \<Rightarrow> (Hang, d)
                        | Completes ms (Inl err) \<Rightarrow> pollLoop s d its
                        | Completes ms (Inr StatusCode) \<Rightarrow>
                            (case queryRootDir s d (info a) of
                               Return (r, Some err) \<Rightarrow>
                                 (Return (Some (''['' @ id_d d @
                                    ''] error querying daemon for root directory: '' @ err)),
                                  d\<lparr>root := r\<rparr>)
                             | Return (r, None) \<Rightarrow> (Return None, d\<lparr>root := r\<rparr>)
                             | Panic \<Rightarrow> (Panic, d)
                             | Abort \<Rightarrow> (Abort, d)
                             | Hang \<Rightarrow> (Hang, d)
                             | Await \<Rightarrow> (Await, d))))
              | Panic \<Rightarrow> (Panic, d)
              | Abort \<Rightarrow> (Abort, d)
              | Hang \<Rightarrow> (Hang, d)
              | Await \<Rightarrow> (Await, d))))"

definition StartWithLogFile ::
  "sys \<Rightarrow> start_in \<Rightarrow> Daemon \<Rightarrow> string \<Rightarrow> string list \<Rightarrow> error option outcome \<times> Daemon" where
  "StartWithLogFile s i d out providedArgs =
     (case LookPath_result i of
        Inl err \<Rightarrow> (Abort, d)
      | Inr bin \<Rightarrow>
          (let args = startArgs s d providedArgs;
               c = \<lparr>Path = bin, Args = bin # args, Process = None\<rparr>;
               d1 = d\<lparr>cmd := Some c, logFile := Some out\<rparr>
           in case cmd_Start i of
                Inl err \<Rightarrow>
                  (Return (Some (''['' @ id_d d @ ''] could not start daemon container: '' @ err)), d1)
              | Inr pid \<Rightarrow>
                  pollLoop s (d1\<lparr>cmd := Some (c\<lparr>Process := Some pid\<rparr>), wait := Some ()\<rparr>)
                    (iterations i)))"

definition Start :: "sys \<Rightarrow> start_in \<Rightarrow> Daemon \<Rightarrow> string list \<Rightarrow> error option outcome \<times> Daemon" where
  "Start s i d args =
     (case OpenFile_result i of
        Some err \<Rightarrow> (Abort, d)
      | None \<Rightarrow> StartWithLogFile s i d (Join s (folder d) ''docker.log'') args)"

section \<open>Notions used in the statements\<close>

text \<open>
  The events by which \<^verbatim>\<open>Stop\<close> knows that the process has exited or has been killed: a
  value received from \<^verbatim>\<open>d.wait\<close>, or a call of \<^verbatim>\<open>Process.Kill\<close>.
\<close>

definition exit_or_kill_seen :: "event list \<Rightarrow> bool" where
  "exit_or_kill_seen tr =
     list_ex (\<lambda>ev. case ev of RecvWait w \<Rightarrow> True | ProcessKill \<Rightarrow> True | _ \<Rightarrow> False) tr"

text \<open>
  The request for \<^verbatim>\<open>/_ping\<close> is sent in an iteration: the deadline of the loop has not
  passed, the \<^verbatim>\<open>select\<close> takes the \<^verbatim>\<open>tick\<close> case, and the client configuration and the
  request are built without error.
\<close>

definition requestSent :: "sys \<Rightarrow> Daemon \<Rightarrow> iteration \<Rightarrow> attempt \<Rightarrow> bool" where
  "requestSent s d it a =
     (elapsed it \<le> 5 \<and> choice it = Tick a \<and>
      (case getClientConfig s d (ping_conf a) of Return (Inr cc) \<Rightarrow> True | _ \<Rightarrow> False) \<and>
      ping_NewRequest a = None)"

text \<open>A liveness attempt that fails: the request is sent and ends in a transport error.\<close>

definition failedAttempt :: "sys \<Rightarrow> Daemon \<Rightarrow> iteration \<Rightarrow> bool" where
  "failedAttempt s d it =
     (case choice it of
        Tick a \<Rightarrow>
          requestSent s d it a \<and>
          (case ping_Do a of Completes ms (Inl err) \<Rightarrow> True | _ \<Rightarrow> False)
      | _ \<Rightarrow> False)"

text \<open>
  The state of the daemon when the readiness loop starts: \<^verbatim>\<open>cmd\<close>, \<^verbatim>\<open>logFile\<close> and \<^verbatim>\<open>wait\<close>
  are set.
\<close>

definition launched :: "sys \<Rightarrow> Daemon \<Rightarrow> string \<Rightarrow> int \<Rightarrow> string list \<Rightarrow> Daemon" where
  "launched s d bin pid args =
     d\<lparr>logFile := Some (Join s (folder d) ''docker.log''),
       cmd := Some \<lparr>Path = bin, Args = bin # startArgs s d args, Process = Some pid\<rparr>,
       wait := Some ()\<rparr>"

text \<open>
  The escalation attempts of a run of \<^verbatim>\<open>Stop\<close>, in the words of the specification (in the
  escalation loop, every second, re-send the interrupt signal and increment an attempt
  counter): the interrupts sent after the 15-second timer of the wait window has fired.
\<close>

definition escalationAttempts :: "event list \<Rightarrow> nat" where
  "escalationAttempts tr = count_list (dropWhile (\<lambda>ev. ev \<noteq> After15s) tr) SendInterrupt"

section \<open>Concrete daemons and environments\<close>

text \<open>A started daemon in the mode of an own socket, with folder \<^verbatim>\<open>/tmp/d1\<close>.\<close>

definition d_started :: Daemon where
  "d_started =
     \<lparr>Command = ''daemon'', GlobalFlags = [], id_d = ''d4711'',
      logFile = Some ''/tmp/d1/docker.log'', folder = ''/tmp/d1'', root = ''/tmp/d1/root'',
      cmd = Some \<lparr>Path = ''/usr/bin/docker'', Args = [''/usr/bin/docker'', ''daemon''],
                  Process = Some 4242\<rparr>,
      storageDriver = '''', wait = Some (), userlandProxy = True, useDefaultHost = False,
      useDefaultTLSHost = False\<rparr>"

text \<open>A process that takes every interrupt and does not exit while \<^verbatim>\<open>Stop\<close> runs.\<close>

definition e_ignored :: os_env where
  "e_ignored =
     \<lparr>signal_result = (\<lambda>i. None), window = TimerFired, escalation = (\<lambda>i. TimerFired),
      kill_result = None, remove_result = None\<rparr>"

text \<open>A process to which no signal can be sent.\<close>

definition e_refused :: os_env where
  "e_refused =
     \<lparr>signal_result = (\<lambda>i. Some ''operation not permitted''), window = TimerFired,
      escalation = (\<lambda>i. TimerFired), kill_result = None, remove_result = None\<rparr>"

text \<open>A process that exits during the 15 seconds after the first interrupt.\<close>

definition e_exits :: os_env where
  "e_exits =
     \<lparr>signal_result = (\<lambda>i. None), window = WaitFired None,
      escalation = (\<lambda>i. TimerFired), kill_result = None, remove_result = None\<rparr>"

text \<open>A process that has to be killed, and a pid file that cannot be removed.\<close>

definition e_remove_fails :: os_env where
  "e_remove_fails =
     \<lparr>signal_result = (\<lambda>i. None), window = TimerFired, escalation = (\<lambda>i. TimerFired),
      kill_result = None, remove_result = Some ''permission denied''\<rparr>"

text \<open>
  A system without overrides in the environment; \<^verbatim>\<open>filepath.Join\<close> on clean paths, and a
  stand-in for the JSON decoder that reads \<^verbatim>\<open>DockerRootDir=<dir>\<close>.
\<close>

definition s0 :: sys where
  "s0 =
     \<lparr>DEST = ''/tmp'', DOCKER_USERLANDPROXY = '''', DOCKER_GRAPHDRIVER = '''',
      DOCKER_REMAP_ROOT = '''', dockerBinary = ''docker'', DefaultHTTPHost = ''localhost'',
      DefaultTLSHTTPPort = 2376, DefaultUnixSocket = ''/var/run/docker.sock'',
      Join = (\<lambda>a b. a @ ''/'' @ b),
      Unmarshal = (\<lambda>b. if HasPrefix b ''DockerRootDir='' then Inr (drop 14 b)
                         else Inl ''invalid character'')\<rparr>"

text \<open>A daemon as \<^verbatim>\<open>NewDaemon\<close> returns it, with folder \<^verbatim>\<open>/tmp/d1\<close>.\<close>

definition d_new :: Daemon where
  "d_new =
     \<lparr>Command = ''daemon'', GlobalFlags = [], id_d = ''d4711'', logFile = None,
      folder = ''/tmp/d1'', root = ''/tmp/d1/root'', cmd = None, storageDriver = '''',
      wait = None, userlandProxy = True, useDefaultHost = False, useDefaultTLSHost = False\<rparr>"

text \<open>Inputs of \<^verbatim>\<open>getClientConfig\<close> and \<^verbatim>\<open>queryRootDir\<close> with which they succeed.\<close>

definition conf_ok :: conf_in where
  "conf_ok = \<lparr>tlsconfig_Client = None, ConfigureTransport = None\<rparr>"

definition info_ok :: info_in where
  "info_ok =
     \<lparr>info_conf = conf_ok, info_NewRequest = None, info_Do = Completes 5 (Inr 200),
      readBody = Inr ''DockerRootDir=/var/lib/docker''\<rparr>"

text \<open>
  An iteration of the readiness loop that takes the \<^verbatim>\<open>tick\<close> case, with the seconds elapsed
  at its head and the result of \<^verbatim>\<open>client.Do\<close> for \<^verbatim>\<open>/_ping\<close>.
\<close>

definition tick_at :: "int \<Rightarrow> do_result \<Rightarrow> info_in \<Rightarrow> iteration" where
  "tick_at t r q =
     \<lparr>elapsed = t,
      choice = Tick \<lparr>ping_conf = conf_ok, ping_NewRequest = None, ping_Do = r, info = q\<rparr>\<rparr>"

text \<open>The inputs of a \<^verbatim>\<open>Start\<close> that finds the binary and spawns the process.\<close>

definition spawned :: "iteration list \<Rightarrow> start_in" where
  "spawned its =
     \<lparr>OpenFile_result = None, LookPath_result = Inr ''/usr/bin/docker'', cmd_Start = Inr 4242,
      iterations = its\<rparr>"



text \<open>
  The inputs of a \<^verbatim>\<open>NewDaemon\<close> at a time that gives the id \<^verbatim>\<open>d4711\<close>, on absolute paths
  that can be created.
\<close>

definition n0 :: new_in where
  "n0 =
     \<lparr>UnixNano = 1461234500000004711, Abs_result = (\<lambda>path. Inr path),
      MkdirAll_result = (\<lambda>path. None)\<rparr>"

section \<open>Stop: a process that ignores the interrupt\<close>

lemma out2_tick_resend:
  "escalation e i = TimerFired \<Longrightarrow> i < 4 \<Longrightarrow> Signal e d (i + 1) = Return None \<Longrightarrow>
     out2 e d i tr = out2 e d (i + 1) (tr @ [TickRecv, SendInterrupt])"
  by (subst out2.simps) simp

lemma out2_tick_kill:
  "escalation e 4 = TimerFired \<Longrightarrow> out2 e d 4 tr = killAndRemove e d (tr @ [TickRecv])"
  by (subst out2.simps) simp

lemma Signal_ok:
  "cmd d = Some c \<Longrightarrow> Process c = Some pid \<Longrightarrow> Signal e d i = Return (signal_result e i)"
  by (simp add: Signal_def)

lemma killAndRemove_ok:
  "cmd d = Some c \<Longrightarrow> Process c = Some pid \<Longrightarrow>
     killAndRemove e d tr =
       (case kill_result e of
          Some err \<Rightarrow> (Return (Some err), tr @ [ProcessKill])
        | None \<Rightarrow> (Return (remove_result e), tr @ [ProcessKill, Remove (folder d @ ''/docker.pid'')]))"
  by (simp add: killAndRemove_def ProcessKillCall_def split: option.splits)

lemma Stop_ignored_interrupt:
  assumes started: "cmd d = Some c" "Process c = Some pid" "wait d \<noteq> None"
    and accepted: "\<forall>i \<in> {1, 2, 3, 4}. signal_result e i = None"
    and no_exit: "window e = TimerFired" "\<forall>i \<in> {1, 2, 3, 4}. escalation e i = TimerFired"
  shows "Stop e d =
           (case kill_result e of
              Some err \<Rightarrow>
                (Return (Some err), d\<lparr>cmd := None\<rparr>,
                 [SendInterrupt, After15s,
                  TickRecv, SendInterrupt, TickRecv, SendInterrupt, TickRecv, SendInterrupt,
                  TickRecv, ProcessKill, CloseLog (logFile d)])
            | None \<Rightarrow>
                (Return (remove_result e), d\<lparr>cmd := None\<rparr>,
                 [SendInterrupt, After15s,
                  TickRecv, SendInterrupt, TickRecv, SendInterrupt, TickRecv, SendInterrupt,
                  TickRecv, ProcessKill, Remove (folder d @ ''/docker.pid''), CloseLog (logFile d)]))"
proof -
  have sig: "Signal e d i = Return None" if "i \<in> {1, 2, 3, 4}" for i
    using that started accepted by (auto simp: Signal_ok)
  have esc: "escalation e i = TimerFired" if "i \<in> {1, 2, 3, 4}" for i
    using that no_exit by auto
  have "out2 e d 1 tr = out2 e d 2 (tr @ [TickRecv, SendInterrupt])" for tr
    using out2_tick_resend [of e 1 d tr] sig [of 2] esc [of 1] by simp
  moreover have "out2 e d 2 tr = out2 e d 3 (tr @ [TickRecv, SendInterrupt])" for tr
    using out2_tick_resend [of e 2 d tr] sig [of 3] esc [of 2] by simp
  moreover have "out2 e d 3 tr = out2 e d 4 (tr @ [TickRecv, SendInterrupt])" for tr
    using out2_tick_resend [of e 3 d tr] sig [of 4] esc [of 3] by simp
  moreover have "out2 e d 4 tr = killAndRemove e d (tr @ [TickRecv])" for tr
    using out2_tick_kill esc [of 4] by simp
  ultimately have loop: "out2 e d 1 tr =
      killAndRemove e d (tr @ [TickRecv, SendInterrupt, TickRecv, SendInterrupt, TickRecv, SendInterrupt, TickRecv])" for tr
    by simp
  show ?thesis
    using started no_exit(1) sig [of 1]
    by (simp add: Stop_def out1_def loop killAndRemove_ok [OF started(1,2)] split: option.splits)
qed

section \<open>Stop and Kill: return paths\<close>

lemma exit_or_kill_seen_iff:
  "exit_or_kill_seen tr \<longleftrightarrow> (\<exists>w. RecvWait w \<in> set tr) \<or> ProcessKill \<in> set tr"
  by (induction tr) (auto simp: exit_or_kill_seen_def split: event.splits)

lemma out2_cases:
  assumes "out2 e d i tr = (r, tr')"
  obtains (exit) w where "escalation e i = WaitFired w" "r = Return w" "tr' = tr @ [RecvWait w]"
  | (kill) "escalation e i = TimerFired" "i + 1 > 4" "killAndRemove e d (tr @ [TickRecv]) = (r, tr')"
  | (resend) "escalation e i = TimerFired" "\<not> i + 1 > 4" "Signal e d (i + 1) = Return None"
      "out2 e d (i + 1) (tr @ [TickRecv, SendInterrupt]) = (r, tr')"
  | (refused) err where "escalation e i = TimerFired" "\<not> i + 1 > 4"
      "Signal e d (i + 1) = Return (Some err)"
      "r = Return (Some (''could not send signal: '' @ err))" "tr' = tr @ [TickRecv, SendInterrupt]"
  | (panic) "escalation e i = TimerFired" "\<not> i + 1 > 4" "r = Panic" "tr' = tr @ [TickRecv]"
  using assms
  by (subst (asm) out2.simps) (auto split: selected.splits if_splits outcome.splits option.splits)

lemma killAndRemove_cases:
  assumes "killAndRemove e d tr = (r, tr')"
  obtains (killed) "kill_result e = None" "r = Return (remove_result e)"
      "tr' = tr @ [ProcessKill, Remove (folder d @ ''/docker.pid'')]"
  | (kill_failed) err where "kill_result e = Some err" "r = Return (Some err)" "tr' = tr @ [ProcessKill]"
  | (panic) "r = Panic" "tr' = tr"
  using assms
  by (auto simp: killAndRemove_def ProcessKillCall_def split: outcome.splits option.splits)

lemma Signal_result:
  "Signal e d i = Return x \<Longrightarrow> x = signal_result e i"
  by (auto simp: Signal_def split: option.splits)

lemma out2_returns:
  "out2 e d i tr = (Return r, tr') \<Longrightarrow>
     exit_or_kill_seen tr' \<or> (\<exists>j err. signal_result e j = Some err \<and> r = Some (''could not send signal: '' @ err))"
proof (induction e d i tr rule: out2.induct)
  case (1 e d i tr)
  from "1.prems" show ?case
  proof (cases rule: out2_cases)
    case (exit w)
    then show ?thesis by (auto simp: exit_or_kill_seen_iff)
  next
    case kill
    from kill(3) show ?thesis
      by (cases rule: killAndRemove_cases) (auto simp: exit_or_kill_seen_iff)
  next
    case resend
    with "1.IH" show ?thesis by simp
  next
    case (refused err)
    with Signal_result [OF refused(3)] show ?thesis by auto
  next
    case panic
    then show ?thesis by simp
  qed
qed

lemma out2_pidfile:
  "out2 e d i tr = (r, tr') \<Longrightarrow>
     ProcessKill \<notin> set tr \<Longrightarrow> (\<forall>p. Remove p \<notin> set tr) \<Longrightarrow> (\<forall>w. RecvWait w \<notin> set tr) \<Longrightarrow>
     (\<forall>p. Remove p \<in> set tr' \<longleftrightarrow>
          ProcessKill \<in> set tr' \<and> kill_result e = None \<and> p = folder d @ ''/docker.pid'') \<and>
     (ProcessKill \<in> set tr' \<and> kill_result e = None \<longrightarrow> r = Return (remove_result e)) \<and>
     (\<forall>w. RecvWait w \<in> set tr' \<longrightarrow> r = Return w \<and> ProcessKill \<notin> set tr')"
proof (induction e d i tr rule: out2.induct)
  case (1 e d i tr)
  from "1.prems"(1) show ?case
  proof (cases rule: out2_cases)
    case (exit w)
    with "1.prems" show ?thesis by auto
  next
    case kill
    from kill(3) "1.prems" show ?thesis
      by (cases rule: killAndRemove_cases) auto
  next
    case resend
    with "1.IH" "1.prems" show ?thesis by simp
  next
    case (refused err)
    with "1.prems" show ?thesis by auto
  next
    case panic
    with "1.prems" show ?thesis by auto
  qed
qed

lemma Stop_started:
  assumes "cmd d \<noteq> None" "wait d \<noteq> None"
  obtains (refused) err where "Signal e d 1 = Return (Some err)"
      "Stop e d = (Return (Some (''could not send signal: '' @ err)), d\<lparr>cmd := None\<rparr>,
                   [SendInterrupt, CloseLog (logFile d)])"
  | (exit) w where "Signal e d 1 = Return None" "window e = WaitFired w"
      "Stop e d = (Return w, d\<lparr>cmd := None\<rparr>, [SendInterrupt, RecvWait w, CloseLog (logFile d)])"
  | (escalate) r tr where "Signal e d 1 = Return None" "window e = TimerFired"
      "out2 e d 1 [SendInterrupt, After15s] = (r, tr)"
      "Stop e d = (r, d\<lparr>cmd := None\<rparr>, tr @ [CloseLog (logFile d)])"
  | (panic) "Stop e d = (Panic, d\<lparr>cmd := None\<rparr>, [CloseLog (logFile d)])"
proof -
  from assms have g: "\<not> (cmd d = None \<or> wait d = None)" by simp
  show thesis
  proof (cases "Signal e d 1")
    case (Return x)
    show thesis
    proof (cases x)
      case None
      show thesis
      proof (cases "window e")
        case (WaitFired w)
        with Return None g exit [of w] show thesis
          by (simp add: Stop_def out1_def)
      next
        case TimerFired
        obtain r tr where o: "out2 e d 1 [SendInterrupt, After15s] = (r, tr)"
          by (cases "out2 e d 1 [SendInterrupt, After15s]")
        with Return None g TimerFired escalate [of r tr] show thesis
          by (simp add: Stop_def out1_def)
      qed
    next
      case (Some err)
      with Return g refused [of err] show thesis
        by (simp add: Stop_def)
    qed
  qed (use g panic in \<open>simp_all add: Stop_def Signal_def split: option.splits\<close>)
qed

text \<open>
  C7. Whatever the first call of \<^verbatim>\<open>Stop\<close> did, a second call right after it returns
  \<^verbatim>\<open>daemon not started\<close>, changes nothing and does nothing (no signal, no second close of
  the log file). For a started daemon the reason is that the first call has set \<^verbatim>\<open>d.cmd\<close> to
  \<^verbatim>\<open>nil\<close> on its way out, also when it returns an error, which it passes on to its caller.
\<close>

theorem C7_Stop_twice:
  "Stop e2 (fst (snd (Stop e1 d))) =
     (Return (Some ''daemon not started''), fst (snd (Stop e1 d)), []) \<and>
   (cmd d \<noteq> None \<and> wait d \<noteq> None \<longrightarrow> cmd (fst (snd (Stop e1 d))) = None) \<and>
   (cmd d = Some c \<and> Process c = Some pid \<and> wait d \<noteq> None \<and> signal_result e1 1 = Some err \<longrightarrow>
      fst (Stop e1 d) = Return (Some (''could not send signal: '' @ err)))"
  by (auto simp: Stop_def Signal_def split: prod.splits)

theorem C7_Stop_twice_witness:
  "cmd d_started \<noteq> None \<and> wait d_started \<noteq> None \<and>
   signal_result e_refused 1 = Some ''operation not permitted'' \<and>
   fst (Stop e_refused d_started) = Return (Some ''could not send signal: operation not permitted'') \<and>
   cmd (fst (snd (Stop e_refused d_started))) = None \<and>
   Stop e_ignored (fst (snd (Stop e_refused d_started))) =
     (Return (Some ''daemon not started''), fst (snd (Stop e_refused d_started)), [])"
  using C7_Stop_twice [of e_ignored e_refused d_started
      "\<lparr>Path = ''/usr/bin/docker'', Args = [''/usr/bin/docker'', ''daemon''], Process = Some 4242\<rparr>"
      4242 "''operation not permitted''"]
  by (simp add: d_started_def e_refused_def)

text \<open>
  C3, as stated, fails where a signal cannot be sent: \<^verbatim>\<open>Stop\<close> then returns at once, having
  neither received from \<^verbatim>\<open>d.wait\<close> nor called \<^verbatim>\<open>Process.Kill\<close>.
\<close>

theorem C3_counterexample:
  "cmd d_started \<noteq> None \<and> wait d_started \<noteq> None \<and>
   fst (Stop e_refused d_started) = Return (Some ''could not send signal: operation not permitted'') \<and>
   snd (snd (Stop e_refused d_started)) = [SendInterrupt, CloseLog (Some ''/tmp/d1/docker.log'')] \<and>
   \<not> exit_or_kill_seen (snd (snd (Stop e_refused d_started)))"
  by (simp add: Stop_def Signal_def d_started_def e_refused_def exit_or_kill_seen_def)

lemma Stop_exit_kill_or_refused:
  "cmd d \<noteq> None \<and> wait d \<noteq> None \<longrightarrow>
     cmd (fst (snd (Stop e d))) = None \<and>
     (\<forall>r. fst (Stop e d) = Return r \<longrightarrow>
        exit_or_kill_seen (snd (snd (Stop e d))) \<or>
        (\<exists>j err. signal_result e j = Some err \<and> r = Some (''could not send signal: '' @ err)))"
proof (intro impI, elim conjE)
  assume "cmd d \<noteq> None" "wait d \<noteq> None"
  then show "cmd (fst (snd (Stop e d))) = None \<and>
     (\<forall>r. fst (Stop e d) = Return r \<longrightarrow>
        exit_or_kill_seen (snd (snd (Stop e d))) \<or>
        (\<exists>j err. signal_result e j = Some err \<and> r = Some (''could not send signal: '' @ err)))"
  proof (cases rule: Stop_started [of d e])
    case (refused err)
    with Signal_result [OF refused(1)] show ?thesis by auto
  next
    case (exit w)
    then show ?thesis by (simp add: exit_or_kill_seen_iff)
  next
    case (escalate r tr)
    show ?thesis
    proof (cases r)
      case (Return x)
      with out2_returns [of e d 1 "[SendInterrupt, After15s]" x tr] escalate
      show ?thesis by (auto simp: exit_or_kill_seen_iff)
    qed (use escalate in simp_all)
  next
    case panic
    then show ?thesis by simp
  qed
qed

lemma out2_returns_value:
  "cmd d = Some c \<Longrightarrow> Process c = Some pid \<Longrightarrow> \<exists>r. fst (out2 e d i tr) = Return r"
proof (induction e d i tr rule: out2.induct)
  case (1 e d i tr)
  from "1.prems" have sig: "Signal e d (i + 1) = Return (signal_result e (i + 1))"
    by (rule Signal_ok)
  show ?case
  proof (cases "escalation e i")
    case (WaitFired w)
    then show ?thesis by (subst out2.simps) simp
  next
    case TimerFired
    show ?thesis
    proof (cases "i + 1 > 4")
      case True
      with TimerFired "1.prems" show ?thesis
        by (subst out2.simps) (simp add: killAndRemove_ok split: option.splits)
    next
      case False
      show ?thesis
      proof (cases "signal_result e (i + 1)")
        case None
        with sig have "Signal e d (i + 1) = Return None" by simp
        from "1.IH" [OF TimerFired False this refl "1.prems"] this TimerFired False
        show ?thesis by (subst out2.simps) simp
      next
        case (Some err)
        with sig TimerFired False show ?thesis by (subst out2.simps) simp
      qed
    qed
  qed
qed

lemma Stop_returns_value:
  assumes "cmd d = Some c" "Process c = Some pid" "wait d \<noteq> None"
  shows "\<exists>r. fst (Stop e d) = Return r"
  using assms out2_returns_value [OF assms(1,2), of e 1 "[SendInterrupt, After15s]"]
  by (auto simp: Stop_def out1_def Signal_ok split: option.splits selected.splits prod.splits)

lemma exit_or_kill_seen_append:
  "exit_or_kill_seen (xs @ ys) \<longleftrightarrow> exit_or_kill_seen xs \<or> exit_or_kill_seen ys"
  by (auto simp: exit_or_kill_seen_iff)

lemma exit_or_kill_seen_Cons:
  "exit_or_kill_seen [] = False"
  "exit_or_kill_seen (SendInterrupt # tr) = exit_or_kill_seen tr"
  "exit_or_kill_seen (After15s # tr) = exit_or_kill_seen tr"
  "exit_or_kill_seen (TickRecv # tr) = exit_or_kill_seen tr"
  "exit_or_kill_seen (Remove p # tr) = exit_or_kill_seen tr"
  "exit_or_kill_seen (CloseLog l # tr) = exit_or_kill_seen tr"
  "exit_or_kill_seen (RecvWait w # tr) = True"
  "exit_or_kill_seen (ProcessKill # tr) = True"
  by (simp_all add: exit_or_kill_seen_def)

lemmas seen = exit_or_kill_seen_append exit_or_kill_seen_Cons

text \<open>
  A run of the escalation loop that starts after \<open>i\<close> interrupts, all of them sent, and
  returns: the exit is received or the kill is called, or the next interrupt that cannot
  be sent ends the run.
\<close>

lemma out2_refused_last:
  "out2 e d i tr = (Return r, tr') \<Longrightarrow> 1 \<le> i \<Longrightarrow>
   count_list tr SendInterrupt = nat i \<Longrightarrow> \<forall>k. 1 \<le> k \<and> k \<le> i \<longrightarrow> signal_result e k = None \<Longrightarrow>
   \<not> exit_or_kill_seen tr \<Longrightarrow>
     exit_or_kill_seen tr' \<or>
     (\<exists>j err pre. i < j \<and> j \<le> 4 \<and> signal_result e j = Some err \<and>
        (\<forall>k. 1 \<le> k \<and> k < j \<longrightarrow> signal_result e k = None) \<and>
        r = Some (''could not send signal: '' @ err) \<and>
        tr' = pre @ [SendInterrupt] \<and> count_list tr' SendInterrupt = nat j \<and>
        \<not> exit_or_kill_seen tr')"
proof (induction e d i tr rule: out2.induct)
  case (1 e d i tr)
  from "1.prems"(1) show ?case
  proof (cases rule: out2_cases)
    case (exit w)
    then show ?thesis by (simp add: seen)
  next
    case kill
    from kill(3) show ?thesis
      by (cases rule: killAndRemove_cases) (simp_all add: seen)
  next
    case resend
    from Signal_result [OF resend(3)] have ok: "signal_result e (i + 1) = None" by simp
    have sent: "\<forall>k. 1 \<le> k \<and> k \<le> i + 1 \<longrightarrow> signal_result e k = None"
    proof (intro allI impI)
      fix k assume k: "1 \<le> k \<and> k \<le> i + 1"
      then have "k \<le> i \<or> k = i + 1" by arith
      with k "1.prems"(4) ok show "signal_result e k = None" by auto
    qed
    from "1.prems" have cnt: "count_list (tr @ [TickRecv, SendInterrupt]) SendInterrupt = nat (i + 1)"
      by (simp add: nat_add_distrib)
    from "1.prems" have unseen: "\<not> exit_or_kill_seen (tr @ [TickRecv, SendInterrupt])"
      by (simp add: seen)
    from "1.prems"(2) have pos: "1 \<le> i + 1" by simp
    from "1.IH" [OF resend(1) resend(2) resend(3) refl resend(4) pos cnt sent unseen]
    show ?thesis by (elim disjE exE conjE) (simp, force)
  next
    case (refused err)
    from Signal_result [OF refused(3)] have bad: "signal_result e (i + 1) = Some err" by simp
    have before: "\<forall>k. 1 \<le> k \<and> k < i + 1 \<longrightarrow> signal_result e k = None"
      using "1.prems"(4) by simp
    from refused "1.prems" have cnt: "count_list tr' SendInterrupt = nat (i + 1)"
      by (simp add: nat_add_distrib)
    from refused "1.prems" have unseen: "\<not> exit_or_kill_seen tr'"
      by (simp add: seen)
    from refused have shape: "tr' = (tr @ [TickRecv]) @ [SendInterrupt]" by simp
    from refused(2) have le: "i + 1 \<le> 4" by simp
    have lt: "i < i + 1" by simp
    from lt le bad before refused(4) shape cnt unseen show ?thesis by blast
  next
    case panic
    then show ?thesis by simp
  qed
qed

text \<open>
  In a run of the escalation loop, an interrupt that could not be sent is the last one
  sent, and the run ends with it.
\<close>

lemma out2_failed_send:
  "out2 e d i tr = (r, tr') \<Longrightarrow> 1 \<le> i \<Longrightarrow>
   count_list tr SendInterrupt = nat i \<Longrightarrow> \<forall>k. 1 \<le> k \<and> k \<le> i \<longrightarrow> signal_result e k = None \<Longrightarrow>
   \<not> exit_or_kill_seen tr \<Longrightarrow>
   1 \<le> j \<Longrightarrow> nat j \<le> count_list tr' SendInterrupt \<Longrightarrow> signal_result e j = Some err \<Longrightarrow>
     count_list tr' SendInterrupt = nat j \<and> r = Return (Some (''could not send signal: '' @ err)) \<and>
     (\<exists>pre. tr' = pre @ [SendInterrupt]) \<and> \<not> exit_or_kill_seen tr'"
proof (induction e d i tr rule: out2.induct)
  case (1 e d i tr)
  have none: "nat j \<le> nat i \<Longrightarrow> False"
  proof -
    assume "nat j \<le> nat i"
    with "1.prems"(2,6) have "1 \<le> j \<and> j \<le> i" by simp
    with "1.prems"(4,8) show False by simp
  qed
  from "1.prems"(1) show ?case
  proof (cases rule: out2_cases)
    case (exit w)
    with "1.prems" none show ?thesis by simp
  next
    case kill
    from kill(3) "1.prems" none show ?thesis
      by (cases rule: killAndRemove_cases) simp_all
  next
    case resend
    from Signal_result [OF resend(3)] have ok: "signal_result e (i + 1) = None" by simp
    have sent: "\<forall>k. 1 \<le> k \<and> k \<le> i + 1 \<longrightarrow> signal_result e k = None"
    proof (intro allI impI)
      fix k assume k: "1 \<le> k \<and> k \<le> i + 1"
      then have "k \<le> i \<or> k = i + 1" by arith
      with k "1.prems"(4) ok show "signal_result e k = None" by auto
    qed
    from "1.prems" have cnt: "count_list (tr @ [TickRecv, SendInterrupt]) SendInterrupt = nat (i + 1)"
      by (simp add: nat_add_distrib)
    from "1.prems" have unseen: "\<not> exit_or_kill_seen (tr @ [TickRecv, SendInterrupt])"
      by (simp add: seen)
    from "1.prems"(2) have pos: "1 \<le> i + 1" by simp
    from "1.IH" [OF resend(1) resend(2) resend(3) refl resend(4) pos cnt sent unseen
        "1.prems"(6) "1.prems"(7) "1.prems"(8)]
    show ?thesis .
  next
    case (refused err')
    from Signal_result [OF refused(3)] have bad: "signal_result e (i + 1) = Some err'" by simp
    from refused "1.prems" have cnt: "count_list tr' SendInterrupt = nat (i + 1)"
      by (simp add: nat_add_distrib)
    with "1.prems"(7) "1.prems"(6) have "j \<le> i + 1" by simp
    moreover have "\<not> j \<le> i"
    proof
      assume "j \<le> i"
      with "1.prems"(4,6,8) show False by simp
    qed
    ultimately have j: "j = i + 1" by simp
    with bad "1.prems"(8) have e: "err' = err" by simp
    from refused "1.prems" have unseen: "\<not> exit_or_kill_seen tr'"
      by (simp add: seen)
    from refused have shape: "tr' = (tr @ [TickRecv]) @ [SendInterrupt]" by simp
    from cnt j e refused(4) shape unseen show ?thesis by blast
  next
    case panic
    with "1.prems" none show ?thesis by simp
  qed
qed

lemma Stop_return_paths:
  assumes started: "cmd d \<noteq> None" "wait d \<noteq> None"
    and ret: "fst (Stop e d) = Return r"
  shows "exit_or_kill_seen (snd (snd (Stop e d))) \<or>
     (\<exists>j err pre. 1 \<le> j \<and> j \<le> 4 \<and> signal_result e j = Some err \<and>
        (\<forall>k. 1 \<le> k \<and> k < j \<longrightarrow> signal_result e k = None) \<and>
        r = Some (''could not send signal: '' @ err) \<and>
        snd (snd (Stop e d)) = pre @ [SendInterrupt, CloseLog (logFile d)] \<and>
        count_list (snd (snd (Stop e d))) SendInterrupt = nat j \<and>
        \<not> exit_or_kill_seen (snd (snd (Stop e d))))"
  using started
proof (cases rule: Stop_started [of d e])
  case (refused err)
  from Signal_result [OF refused(1)] have bad: "signal_result e 1 = Some err" by simp
  have before: "\<forall>k::int. 1 \<le> k \<and> k < 1 \<longrightarrow> signal_result e k = None" by auto
  from refused ret have r: "r = Some (''could not send signal: '' @ err)" by simp
  from refused have shape: "snd (snd (Stop e d)) = [] @ [SendInterrupt, CloseLog (logFile d)]"
    by simp
  from refused have cnt: "count_list (snd (snd (Stop e d))) SendInterrupt = nat 1"
    and unseen: "\<not> exit_or_kill_seen (snd (snd (Stop e d)))"
    by (simp_all add: seen)
  have "(1::int) \<le> 1" "(1::int) \<le> 4" by simp_all
  with bad before r shape cnt unseen show ?thesis by blast
next
  case (exit w)
  then show ?thesis by (simp add: seen)
next
  case (escalate x tr)
  with ret have o: "out2 e d 1 [SendInterrupt, After15s] = (Return r, tr)" by simp
  from Signal_result [OF escalate(1)]
  have ok: "\<forall>k::int. 1 \<le> k \<and> k \<le> 1 \<longrightarrow> signal_result e k = None"
    by auto
  have "exit_or_kill_seen tr \<or>
     (\<exists>j err pre. 1 < j \<and> j \<le> 4 \<and> signal_result e j = Some err \<and>
        (\<forall>k. 1 \<le> k \<and> k < j \<longrightarrow> signal_result e k = None) \<and>
        r = Some (''could not send signal: '' @ err) \<and>
        tr = pre @ [SendInterrupt] \<and> count_list tr SendInterrupt = nat j \<and>
        \<not> exit_or_kill_seen tr)"
    by (rule out2_refused_last [OF o _ _ ok]) (simp_all add: seen)
  then show ?thesis
  proof
    assume "exit_or_kill_seen tr"
    with escalate show ?thesis by (simp add: seen)
  next
    assume "\<exists>j err pre. 1 < j \<and> j \<le> 4 \<and> signal_result e j = Some err \<and>
        (\<forall>k. 1 \<le> k \<and> k < j \<longrightarrow> signal_result e k = None) \<and>
        r = Some (''could not send signal: '' @ err) \<and>
        tr = pre @ [SendInterrupt] \<and> count_list tr SendInterrupt = nat j \<and>
        \<not> exit_or_kill_seen tr"
    then obtain j err pre where j: "1 < j" "j \<le> 4" "signal_result e j = Some err"
      "\<forall>k. 1 \<le> k \<and> k < j \<longrightarrow> signal_result e k = None"
      "r = Some (''could not send signal: '' @ err)"
      "tr = pre @ [SendInterrupt]" "count_list tr SendInterrupt = nat j"
      "\<not> exit_or_kill_seen tr"
      by blast
    from j(1) have "1 \<le> j" by simp
    moreover from escalate j(6)
    have "snd (snd (Stop e d)) = pre @ [SendInterrupt, CloseLog (logFile d)]" by simp
    moreover from escalate j(7)
    have "count_list (snd (snd (Stop e d))) SendInterrupt = nat j" by simp
    moreover from escalate j(8)
    have "\<not> exit_or_kill_seen (snd (snd (Stop e d)))" by (simp add: seen)
    ultimately show ?thesis using j(2,3,4,5) by blast
  qed
next
  case panic
  with ret show ?thesis by simp
qed

text \<open>
  An interrupt that \<^verbatim>\<open>Stop\<close> sent and that could not be sent is the last one it sent, and
  \<^verbatim>\<open>Stop\<close> returns its error right after it.
\<close>

lemma Stop_failed_send:
  assumes j: "1 \<le> j" "nat j \<le> count_list (snd (snd (Stop e d))) SendInterrupt"
    and bad: "signal_result e j = Some err"
  shows "count_list (snd (snd (Stop e d))) SendInterrupt = nat j \<and>
     fst (Stop e d) = Return (Some (''could not send signal: '' @ err)) \<and>
     (\<exists>pre. snd (snd (Stop e d)) = pre @ [SendInterrupt, CloseLog (logFile d)]) \<and>
     \<not> exit_or_kill_seen (snd (snd (Stop e d)))"
proof -
  from j have sent: "count_list (snd (snd (Stop e d))) SendInterrupt \<noteq> 0" by auto
  then have "cmd d \<noteq> None" "wait d \<noteq> None"
    by (auto simp: Stop_def split: if_splits)
  then show ?thesis
  proof (cases rule: Stop_started [of d e])
    case (refused err')
    from Signal_result [OF refused(1)] have one: "signal_result e 1 = Some err'" by simp
    from refused j have "j = 1" by simp
    with one bad refused show ?thesis by (simp add: seen)
  next
    case (exit w)
    from Signal_result [OF exit(1)] have "signal_result e 1 = None" by simp
    moreover from exit j have "j = 1" by simp
    ultimately show ?thesis using bad by simp
  next
    case (escalate r tr)
    from Signal_result [OF escalate(1)]
    have ok: "\<forall>k::int. 1 \<le> k \<and> k \<le> 1 \<longrightarrow> signal_result e k = None"
      by auto
    from escalate j(2) have le: "nat j \<le> count_list tr SendInterrupt" by simp
    have "count_list tr SendInterrupt = nat j \<and> r = Return (Some (''could not send signal: '' @ err)) \<and>
        (\<exists>pre. tr = pre @ [SendInterrupt]) \<and> \<not> exit_or_kill_seen tr"
      by (rule out2_failed_send [OF escalate(3) _ _ ok _ j(1) le bad]) (simp_all add: seen)
    with escalate(4) show ?thesis by (auto simp: seen)
  next
    case panic
    with sent show ?thesis by simp
  qed
qed

text \<open>
  C3, amended. \<^verbatim>\<open>Stop\<close> on a started daemon leaves \<^verbatim>\<open>d.cmd\<close> \<^verbatim>\<open>nil\<close> however it ends, and it
  returns when the command has its process. When it returns, it has received the exit of
  the process from \<^verbatim>\<open>d.wait\<close> or has called \<^verbatim>\<open>Process.Kill\<close>, or else the last interrupt it
  sent, the \<open>j\<close>-th of the call with \<open>j\<close> from 1 to 4 and all earlier ones sent, could not be
  sent. An interrupt that cannot be sent ends the call at once: it is the last interrupt
  sent, \<^verbatim>\<open>Stop\<close> returns \<^verbatim>\<open>could not send signal\<close> with its error right after it, only the
  deferred close of the log file follows, and in the whole call no exit has been received
  and no kill has been called.
\<close>

theorem C3_Stop_returns:
  "cmd d = Some c \<and> wait d \<noteq> None \<longrightarrow>
     cmd (fst (snd (Stop e d))) = None \<and>
     (Process c = Some pid \<longrightarrow> (\<exists>r. fst (Stop e d) = Return r)) \<and>
     (\<forall>r. fst (Stop e d) = Return r \<longrightarrow>
        exit_or_kill_seen (snd (snd (Stop e d))) \<or>
        (\<exists>j err pre. 1 \<le> j \<and> j \<le> 4 \<and> signal_result e j = Some err \<and>
           (\<forall>k. 1 \<le> k \<and> k < j \<longrightarrow> signal_result e k = None) \<and>
           r = Some (''could not send signal: '' @ err) \<and>
           snd (snd (Stop e d)) = pre @ [SendInterrupt, CloseLog (logFile d)] \<and>
           count_list (snd (snd (Stop e d))) SendInterrupt = nat j \<and>
           \<not> exit_or_kill_seen (snd (snd (Stop e d))))) \<and>
     (\<forall>j err. 1 \<le> j \<and> nat j \<le> count_list (snd (snd (Stop e d))) SendInterrupt \<and>
        signal_result e j = Some err \<longrightarrow>
          count_list (snd (snd (Stop e d))) SendInterrupt = nat j \<and>
          fst (Stop e d) = Return (Some (''could not send signal: '' @ err)) \<and>
          (\<exists>pre. snd (snd (Stop e d)) = pre @ [SendInterrupt, CloseLog (logFile d)]) \<and>
          \<not> exit_or_kill_seen (snd (snd (Stop e d))))"
  (is "?H \<longrightarrow> ?C")
proof
  assume h: ?H
  then have s: "cmd d \<noteq> None \<and> wait d \<noteq> None" by simp
  from Stop_exit_kill_or_refused [of d e] s have 1: "cmd (fst (snd (Stop e d))) = None"
    by blast
  have 2: "Process c = Some pid \<longrightarrow> (\<exists>r. fst (Stop e d) = Return r)"
    using h Stop_returns_value [of d c pid e] by blast
  have 3: "\<forall>r. fst (Stop e d) = Return r \<longrightarrow>
        exit_or_kill_seen (snd (snd (Stop e d))) \<or>
        (\<exists>j err pre. 1 \<le> j \<and> j \<le> 4 \<and> signal_result e j = Some err \<and>
           (\<forall>k. 1 \<le> k \<and> k < j \<longrightarrow> signal_result e k = None) \<and>
           r = Some (''could not send signal: '' @ err) \<and>
           snd (snd (Stop e d)) = pre @ [SendInterrupt, CloseLog (logFile d)] \<and>
           count_list (snd (snd (Stop e d))) SendInterrupt = nat j \<and>
           \<not> exit_or_kill_seen (snd (snd (Stop e d))))"
  proof (intro allI impI)
    fix r assume "fst (Stop e d) = Return r"
    with s show "exit_or_kill_seen (snd (snd (Stop e d))) \<or>
        (\<exists>j err pre. 1 \<le> j \<and> j \<le> 4 \<and> signal_result e j = Some err \<and>
           (\<forall>k. 1 \<le> k \<and> k < j \<longrightarrow> signal_result e k = None) \<and>
           r = Some (''could not send signal: '' @ err) \<and>
           snd (snd (Stop e d)) = pre @ [SendInterrupt, CloseLog (logFile d)] \<and>
           count_list (snd (snd (Stop e d))) SendInterrupt = nat j \<and>
           \<not> exit_or_kill_seen (snd (snd (Stop e d))))"
      by (intro Stop_return_paths) simp_all
  qed
  have 4: "\<forall>j err. 1 \<le> j \<and> nat j \<le> count_list (snd (snd (Stop e d))) SendInterrupt \<and>
        signal_result e j = Some err \<longrightarrow>
          count_list (snd (snd (Stop e d))) SendInterrupt = nat j \<and>
          fst (Stop e d) = Return (Some (''could not send signal: '' @ err)) \<and>
          (\<exists>pre. snd (snd (Stop e d)) = pre @ [SendInterrupt, CloseLog (logFile d)]) \<and>
          \<not> exit_or_kill_seen (snd (snd (Stop e d)))"
  proof (intro allI impI, elim conjE)
    fix j err
    assume "1 \<le> j" "nat j \<le> count_list (snd (snd (Stop e d))) SendInterrupt"
      "signal_result e j = Some err"
    then show "count_list (snd (snd (Stop e d))) SendInterrupt = nat j \<and>
          fst (Stop e d) = Return (Some (''could not send signal: '' @ err)) \<and>
          (\<exists>pre. snd (snd (Stop e d)) = pre @ [SendInterrupt, CloseLog (logFile d)]) \<and>
          \<not> exit_or_kill_seen (snd (snd (Stop e d)))"
      by (rule Stop_failed_send)
  qed
  show ?C
    by (rule conjI [OF 1 conjI [OF 2 conjI [OF 3 4]]])
qed

theorem C3_Stop_returns_witness:
  "cmd d_started \<noteq> None \<and> wait d_started \<noteq> None \<and>
   signal_result e_refused 1 = Some ''operation not permitted'' \<and>
   snd (snd (Stop e_refused d_started)) = [SendInterrupt, CloseLog (Some ''/tmp/d1/docker.log'')] \<and>
   cmd (fst (snd (Stop e_refused d_started))) = None \<and>
   fst (Stop e_refused d_started) = Return (Some ''could not send signal: operation not permitted'') \<and>
   \<not> exit_or_kill_seen (snd (snd (Stop e_refused d_started))) \<and>
   (\<exists>r. fst (Stop e_ignored d_started) = Return r)"
proof -
  let ?c = "\<lparr>Path = ''/usr/bin/docker'', Args = [''/usr/bin/docker'', ''daemon''], Process = Some 4242\<rparr>"
  have h: "cmd d_started = Some ?c \<and> wait d_started \<noteq> None"
    by (simp add: d_started_def)
  have p: "Process ?c = Some 4242"
    by simp
  have t: "snd (snd (Stop e_refused d_started)) = [SendInterrupt, CloseLog (Some ''/tmp/d1/docker.log'')]"
    by (simp add: Stop_def Signal_def d_started_def e_refused_def)
  have f: "signal_result e_refused 1 = Some ''operation not permitted''"
    by (simp add: e_refused_def)
  from t f
  have b: "(1::int) \<le> 1 \<and> nat 1 \<le> count_list (snd (snd (Stop e_refused d_started))) SendInterrupt \<and>
      signal_result e_refused 1 = Some ''operation not permitted''"
    by simp
  note refused = C3_Stop_returns [of d_started ?c e_refused 4242, THEN mp, OF h]
  note ignored = C3_Stop_returns [of d_started ?c e_ignored 4242, THEN mp, OF h]
  from refused have 1: "cmd (fst (snd (Stop e_refused d_started))) = None"
    by (rule conjunct1)
  from refused [THEN conjunct2, THEN conjunct2, THEN conjunct2, rule_format, OF b]
  have 2: "fst (Stop e_refused d_started) = Return (Some ''could not send signal: operation not permitted'') \<and>
      \<not> exit_or_kill_seen (snd (snd (Stop e_refused d_started)))"
    by simp
  from ignored [THEN conjunct2, THEN conjunct1, rule_format, OF p]
  have 3: "\<exists>r. fst (Stop e_ignored d_started) = Return r" .
  from h b t 1 2 3 show ?thesis by simp
qed

section \<open>Stop: the escalation, event by event\<close>

lemma out2_kill_trace:
  "out2 e d i tr = (r, tr') \<Longrightarrow> ProcessKill \<in> set tr' \<Longrightarrow> ProcessKill \<notin> set tr \<Longrightarrow> i \<le> 4 \<Longrightarrow>
     tr' = tr @ concat (replicate (nat (4 - i)) [TickRecv, SendInterrupt]) @ [TickRecv, ProcessKill] @
           (if kill_result e = None then [Remove (folder d @ ''/docker.pid'')] else [])"
proof (induction e d i tr rule: out2.induct)
  case (1 e d i tr)
  from "1.prems"(1) show ?case
  proof (cases rule: out2_cases)
    case (exit w)
    with "1.prems" show ?thesis by simp
  next
    case kill
    with "1.prems" have i: "i = 4" by simp
    from kill(3) "1.prems" i show ?thesis
      by (cases rule: killAndRemove_cases) auto
  next
    case resend
    then have lt: "i < 4" by simp
    from "1.prems" have "ProcessKill \<notin> set (tr @ [TickRecv, SendInterrupt])" by simp
    with "1.IH" resend "1.prems" lt
    have "tr' = (tr @ [TickRecv, SendInterrupt]) @
        concat (replicate (nat (4 - (i + 1))) [TickRecv, SendInterrupt]) @ [TickRecv, ProcessKill] @
        (if kill_result e = None then [Remove (folder d @ ''/docker.pid'')] else [])"
      by simp
    moreover from lt have "nat (4 - i) = Suc (nat (4 - (i + 1)))" by simp
    ultimately show ?thesis by simp
  next
    case (refused err)
    with "1.prems" show ?thesis by simp
  next
    case panic
    with "1.prems" show ?thesis by simp
  qed
qed

lemma Stop_kill_trace:
  assumes "ProcessKill \<in> set (snd (snd (Stop e d)))"
  shows "snd (snd (Stop e d)) =
           [SendInterrupt, After15s,
            TickRecv, SendInterrupt, TickRecv, SendInterrupt, TickRecv, SendInterrupt,
            TickRecv, ProcessKill] @
           (if kill_result e = None then [Remove (folder d @ ''/docker.pid'')] else []) @
           [CloseLog (logFile d)]"
proof -
  from assms have "cmd d \<noteq> None" "wait d \<noteq> None"
    by (auto simp: Stop_def split: if_splits)
  then show ?thesis
  proof (cases rule: Stop_started [of d e])
    case (escalate r tr)
    with assms have k: "ProcessKill \<in> set tr" by simp
    from out2_kill_trace [OF escalate(3) k] escalate(4) show ?thesis
      by (simp add: numeral_3_eq_3)
  qed (use assms in simp_all)
qed

lemma escalationAttempts_kill:
  "escalationAttempts
     ([SendInterrupt, After15s,
       TickRecv, SendInterrupt, TickRecv, SendInterrupt, TickRecv, SendInterrupt,
       TickRecv, ProcessKill] @
      (if k then [Remove p] else []) @ [CloseLog l]) = 3"
  by (simp add: escalationAttempts_def)

text \<open>
  C1, as stated, fails: with a process that ignores the interrupt, the hard kill is
  issued after three escalation attempts, not four. The fourth tick of the escalation
  loop raises the counter to 5 and leaves the loop without a signal.
\<close>

theorem C1_counterexample:
  "window e_ignored = TimerFired \<and>
   escalation e_ignored 1 = TimerFired \<and> escalation e_ignored 2 = TimerFired \<and>
   escalation e_ignored 3 = TimerFired \<and> escalation e_ignored 4 = TimerFired \<and>
   snd (snd (Stop e_ignored d_started)) =
     [SendInterrupt, After15s,
      TickRecv, SendInterrupt, TickRecv, SendInterrupt, TickRecv, SendInterrupt,
      TickRecv, ProcessKill, Remove ''/tmp/d1/docker.pid'', CloseLog (Some ''/tmp/d1/docker.log'')] \<and>
   escalationAttempts (snd (snd (Stop e_ignored d_started))) = 3 \<and>
   escalationAttempts (snd (snd (Stop e_ignored d_started))) \<noteq> 4"
  by (simp add: Stop_def out1_def out2.simps Signal_def killAndRemove_def ProcessKillCall_def
      d_started_def e_ignored_def escalationAttempts_def)

text \<open>
  C1, amended. A process that takes the interrupts and has not exited whenever \<^verbatim>\<open>Stop\<close>
  looks: \<^verbatim>\<open>Stop\<close> sends the interrupt, the 15-second timer of the wait window fires, and
  the escalation loop runs four times, once per tick of the one-second ticker. On the
  first three ticks the interrupt is sent again (the attempts 2, 3 and 4 of the counter
  \<^verbatim>\<open>i\<close>, which counts the first interrupt as 1); on the fourth tick nothing is sent, the
  loop is left, and \<^verbatim>\<open>Process.Kill\<close> is called once. Every run of \<^verbatim>\<open>Stop\<close> that calls
  \<^verbatim>\<open>Process.Kill\<close> is this sequence of events: one kill, after three escalation attempts
  and four ticks. The statement is about the order of the events, not about the times at
  which the ticks arrive.
\<close>

theorem C1_Stop_escalation:
  "(cmd d = Some c \<and> Process c = Some pid \<and> wait d \<noteq> None \<and>
    (\<forall>i \<in> {1, 2, 3, 4}. signal_result e i = None) \<and>
    window e = TimerFired \<and> (\<forall>i \<in> {1, 2, 3, 4}. escalation e i = TimerFired) \<longrightarrow>
      Stop e d =
        (case kill_result e of
           Some err \<Rightarrow>
             (Return (Some err), d\<lparr>cmd := None\<rparr>,
              [SendInterrupt, After15s,
               TickRecv, SendInterrupt, TickRecv, SendInterrupt, TickRecv, SendInterrupt,
               TickRecv, ProcessKill, CloseLog (logFile d)])
         | None \<Rightarrow>
             (Return (remove_result e), d\<lparr>cmd := None\<rparr>,
              [SendInterrupt, After15s,
               TickRecv, SendInterrupt, TickRecv, SendInterrupt, TickRecv, SendInterrupt,
               TickRecv, ProcessKill, Remove (folder d @ ''/docker.pid''),
               CloseLog (logFile d)]))) \<and>
   (ProcessKill \<in> set (snd (snd (Stop e d))) \<longrightarrow>
      snd (snd (Stop e d)) =
        [SendInterrupt, After15s,
         TickRecv, SendInterrupt, TickRecv, SendInterrupt, TickRecv, SendInterrupt,
         TickRecv, ProcessKill] @
        (if kill_result e = None then [Remove (folder d @ ''/docker.pid'')] else []) @
        [CloseLog (logFile d)] \<and>
      escalationAttempts (snd (snd (Stop e d))) = 3 \<and>
      count_list (snd (snd (Stop e d))) ProcessKill = 1)"
proof (intro conjI impI)
  assume "cmd d = Some c \<and> Process c = Some pid \<and> wait d \<noteq> None \<and>
    (\<forall>i \<in> {1, 2, 3, 4}. signal_result e i = None) \<and>
    window e = TimerFired \<and> (\<forall>i \<in> {1, 2, 3, 4}. escalation e i = TimerFired)"
  then show "Stop e d =
        (case kill_result e of
           Some err \<Rightarrow>
             (Return (Some err), d\<lparr>cmd := None\<rparr>,
              [SendInterrupt, After15s,
               TickRecv, SendInterrupt, TickRecv, SendInterrupt, TickRecv, SendInterrupt,
               TickRecv, ProcessKill, CloseLog (logFile d)])
         | None \<Rightarrow>
             (Return (remove_result e), d\<lparr>cmd := None\<rparr>,
              [SendInterrupt, After15s,
               TickRecv, SendInterrupt, TickRecv, SendInterrupt, TickRecv, SendInterrupt,
               TickRecv, ProcessKill, Remove (folder d @ ''/docker.pid''),
               CloseLog (logFile d)]))"
    using Stop_ignored_interrupt [of d c pid e] by blast
next
  assume k: "ProcessKill \<in> set (snd (snd (Stop e d)))"
  note t = Stop_kill_trace [OF k]
  show "snd (snd (Stop e d)) =
        [SendInterrupt, After15s,
         TickRecv, SendInterrupt, TickRecv, SendInterrupt, TickRecv, SendInterrupt,
         TickRecv, ProcessKill] @
        (if kill_result e = None then [Remove (folder d @ ''/docker.pid'')] else []) @
        [CloseLog (logFile d)]"
    by (rule t)
  show "escalationAttempts (snd (snd (Stop e d))) = 3"
    by (subst t) (rule escalationAttempts_kill)
  show "count_list (snd (snd (Stop e d))) ProcessKill = 1"
    by (subst t) simp
qed

theorem C1_Stop_escalation_witness:
  "cmd d_started \<noteq> None \<and> wait d_started \<noteq> None \<and>
   window e_ignored = TimerFired \<and>
   signal_result e_ignored 1 = None \<and> signal_result e_ignored 2 = None \<and>
   signal_result e_ignored 3 = None \<and> signal_result e_ignored 4 = None \<and>
   escalation e_ignored 1 = TimerFired \<and> escalation e_ignored 2 = TimerFired \<and>
   escalation e_ignored 3 = TimerFired \<and> escalation e_ignored 4 = TimerFired \<and>
   Stop e_ignored d_started =
     (Return None, d_started\<lparr>cmd := None\<rparr>,
      [SendInterrupt, After15s,
       TickRecv, SendInterrupt, TickRecv, SendInterrupt, TickRecv, SendInterrupt,
       TickRecv, ProcessKill, Remove ''/tmp/d1/docker.pid'',
       CloseLog (Some ''/tmp/d1/docker.log'')]) \<and>
   ProcessKill \<in> set (snd (snd (Stop e_ignored d_started))) \<and>
   escalationAttempts (snd (snd (Stop e_ignored d_started))) = 3 \<and>
   count_list (snd (snd (Stop e_ignored d_started))) ProcessKill = 1"
proof -
  let ?c = "\<lparr>Path = ''/usr/bin/docker'', Args = [''/usr/bin/docker'', ''daemon''], Process = Some 4242\<rparr>"
  have h: "cmd d_started = Some ?c \<and> Process ?c = Some 4242 \<and> wait d_started \<noteq> None \<and>
      (\<forall>i \<in> {1, 2, 3, 4}. signal_result e_ignored i = None) \<and>
      window e_ignored = TimerFired \<and> (\<forall>i \<in> {1, 2, 3, 4}. escalation e_ignored i = TimerFired)"
    by (simp add: d_started_def e_ignored_def)
  have f: "folder d_started = ''/tmp/d1''" "logFile d_started = Some ''/tmp/d1/docker.log''"
    "kill_result e_ignored = None" "remove_result e_ignored = None"
    by (simp_all add: d_started_def e_ignored_def)
  note inst = C1_Stop_escalation [of d_started ?c 4242 e_ignored]
  from inst [THEN conjunct1, THEN mp, OF h] f have s: "Stop e_ignored d_started =
     (Return None, d_started\<lparr>cmd := None\<rparr>,
      [SendInterrupt, After15s,
       TickRecv, SendInterrupt, TickRecv, SendInterrupt, TickRecv, SendInterrupt,
       TickRecv, ProcessKill, Remove ''/tmp/d1/docker.pid'',
       CloseLog (Some ''/tmp/d1/docker.log'')])"
    by simp
  then have k: "ProcessKill \<in> set (snd (snd (Stop e_ignored d_started)))"
    by simp
  from inst [THEN conjunct2, THEN mp, OF k]
  have c: "escalationAttempts (snd (snd (Stop e_ignored d_started))) = 3 \<and>
      count_list (snd (snd (Stop e_ignored d_started))) ProcessKill = 1"
    by (rule conjunct2)
  have g: "cmd d_started \<noteq> None \<and> wait d_started \<noteq> None \<and>
      window e_ignored = TimerFired \<and>
      signal_result e_ignored 1 = None \<and> signal_result e_ignored 2 = None \<and>
      signal_result e_ignored 3 = None \<and> signal_result e_ignored 4 = None \<and>
      escalation e_ignored 1 = TimerFired \<and> escalation e_ignored 2 = TimerFired \<and>
      escalation e_ignored 3 = TimerFired \<and> escalation e_ignored 4 = TimerFired"
    by (simp add: d_started_def e_ignored_def)
  from g s k c show ?thesis by blast
qed

section \<open>Stop and Kill: the pid file\<close>

lemma Kill_started:
  "cmd d = Some c \<Longrightarrow> Process c = Some pid \<Longrightarrow> wait d \<noteq> None \<Longrightarrow>
     Kill e d =
       (case kill_result e of
          Some err \<Rightarrow> (Return (Some err), d\<lparr>cmd := None\<rparr>, [ProcessKill, CloseLog (logFile d)])
        | None \<Rightarrow>
            (Return (remove_result e), d\<lparr>cmd := None\<rparr>,
             [ProcessKill, Remove (folder d @ ''/docker.pid''), CloseLog (logFile d)]))"
  by (simp add: Kill_def killAndRemove_ok split: option.splits)

lemma Stop_pidfile:
  assumes "cmd d \<noteq> None" "wait d \<noteq> None"
  shows "(\<forall>p. Remove p \<in> set (snd (snd (Stop e d))) \<longleftrightarrow>
            ProcessKill \<in> set (snd (snd (Stop e d))) \<and> kill_result e = None \<and>
            p = folder d @ ''/docker.pid'') \<and>
         (ProcessKill \<in> set (snd (snd (Stop e d))) \<and> kill_result e = None \<longrightarrow>
            fst (Stop e d) = Return (remove_result e)) \<and>
         (\<forall>w. RecvWait w \<in> set (snd (snd (Stop e d))) \<longrightarrow>
            fst (Stop e d) = Return w \<and> ProcessKill \<notin> set (snd (snd (Stop e d))))"
  using assms
proof (cases rule: Stop_started [of d e])
  case (escalate r tr)
  from out2_pidfile [OF escalate(3)] escalate(4) show ?thesis by simp
qed auto

text \<open>
  C8, as stated, fails where the process exits by itself: \<^verbatim>\<open>Stop\<close> returns what it received
  from \<^verbatim>\<open>d.wait\<close> and does not touch the pid file.
\<close>

theorem C8_counterexample:
  "cmd d_started \<noteq> None \<and> wait d_started \<noteq> None \<and>
   window e_exits = WaitFired None \<and>
   Stop e_exits d_started =
     (Return None, d_started\<lparr>cmd := None\<rparr>,
      [SendInterrupt, RecvWait None, CloseLog (Some ''/tmp/d1/docker.log'')]) \<and>
   Remove (folder d_started @ ''/docker.pid'') \<notin> set (snd (snd (Stop e_exits d_started)))"
  by (simp add: Stop_def out1_def Signal_def d_started_def e_exits_def)

text \<open>
  C8, amended. The pid file is removed on the hard-kill path only: by \<^verbatim>\<open>Kill\<close>, and by \<^verbatim>\<open>Stop\<close>
  when the escalation ends in \<^verbatim>\<open>Process.Kill\<close>, in both after a kill that succeeded; the
  error of the removal, if any, is what the caller gets. When \<^verbatim>\<open>Stop\<close> receives the exit of
  the process from \<^verbatim>\<open>d.wait\<close> it returns that value and removes nothing.
\<close>

theorem C8_pidfile_removed_after_kill:
  "cmd d = Some c \<and> Process c = Some pid \<and> wait d \<noteq> None \<longrightarrow>
     Kill e d =
       (case kill_result e of
          Some err \<Rightarrow> (Return (Some err), d\<lparr>cmd := None\<rparr>, [ProcessKill, CloseLog (logFile d)])
        | None \<Rightarrow>
            (Return (remove_result e), d\<lparr>cmd := None\<rparr>,
             [ProcessKill, Remove (folder d @ ''/docker.pid''), CloseLog (logFile d)])) \<and>
     (\<forall>p. Remove p \<in> set (snd (snd (Stop e d))) \<longleftrightarrow>
            ProcessKill \<in> set (snd (snd (Stop e d))) \<and> kill_result e = None \<and>
            p = folder d @ ''/docker.pid'') \<and>
     (ProcessKill \<in> set (snd (snd (Stop e d))) \<and> kill_result e = None \<longrightarrow>
        fst (Stop e d) = Return (remove_result e)) \<and>
     (\<forall>w. RecvWait w \<in> set (snd (snd (Stop e d))) \<longrightarrow>
        fst (Stop e d) = Return w \<and> ProcessKill \<notin> set (snd (snd (Stop e d))))"
  using Kill_started [of d c pid e] Stop_pidfile [of d e] by simp

theorem C8_pidfile_removed_after_kill_witness:
  "cmd d_started \<noteq> None \<and> wait d_started \<noteq> None \<and>
   kill_result e_remove_fails = None \<and> remove_result e_remove_fails = Some ''permission denied'' \<and>
   Kill e_remove_fails d_started =
     (Return (Some ''permission denied''), d_started\<lparr>cmd := None\<rparr>,
      [ProcessKill, Remove ''/tmp/d1/docker.pid'', CloseLog (Some ''/tmp/d1/docker.log'')]) \<and>
   ProcessKill \<in> set (snd (snd (Stop e_remove_fails d_started))) \<and>
   Remove ''/tmp/d1/docker.pid'' \<in> set (snd (snd (Stop e_remove_fails d_started))) \<and>
   fst (Stop e_remove_fails d_started) = Return (Some ''permission denied'') \<and>
   RecvWait None \<in> set (snd (snd (Stop e_exits d_started))) \<and>
   fst (Stop e_exits d_started) = Return None \<and>
   ProcessKill \<notin> set (snd (snd (Stop e_exits d_started)))"
proof -
  let ?c = "\<lparr>Path = ''/usr/bin/docker'', Args = [''/usr/bin/docker'', ''daemon''], Process = Some 4242\<rparr>"
  have h: "cmd d_started = Some ?c \<and> Process ?c = Some 4242 \<and> wait d_started \<noteq> None"
    by (simp add: d_started_def)
  have f: "folder d_started = ''/tmp/d1''" "logFile d_started = Some ''/tmp/d1/docker.log''"
    by (simp_all add: d_started_def)
  have e: "kill_result e_remove_fails = None \<and> remove_result e_remove_fails = Some ''permission denied''"
    by (simp add: e_remove_fails_def)
  have k: "ProcessKill \<in> set (snd (snd (Stop e_remove_fails d_started)))"
    by (simp add: Stop_def out1_def out2.simps Signal_def killAndRemove_def ProcessKillCall_def
        d_started_def e_remove_fails_def)
  have w: "RecvWait None \<in> set (snd (snd (Stop e_exits d_started)))"
    by (simp add: Stop_def out1_def Signal_def d_started_def e_exits_def)
  note killed = C8_pidfile_removed_after_kill [of d_started ?c 4242 e_remove_fails]
  note exited = C8_pidfile_removed_after_kill [of d_started ?c 4242 e_exits]
  from killed h e f have 1: "Kill e_remove_fails d_started =
     (Return (Some ''permission denied''), d_started\<lparr>cmd := None\<rparr>,
      [ProcessKill, Remove ''/tmp/d1/docker.pid'', CloseLog (Some ''/tmp/d1/docker.log'')])"
    by simp
  from killed h e k f have 2: "Remove ''/tmp/d1/docker.pid'' \<in> set (snd (snd (Stop e_remove_fails d_started)))"
    by simp
  from killed h e k have 3: "fst (Stop e_remove_fails d_started) = Return (Some ''permission denied'')"
    by simp
  from exited h w have 4: "fst (Stop e_exits d_started) = Return None \<and>
      ProcessKill \<notin> set (snd (snd (Stop e_exits d_started)))"
    by blast
  from h e 1 k 2 3 w 4 show ?thesis by simp
qed

section \<open>Start: the readiness loop\<close>

lemma Start_launched:
  "OpenFile_result i = None \<Longrightarrow> LookPath_result i = Inr bin \<Longrightarrow> cmd_Start i = Inr pid \<Longrightarrow>
     Start s i d args = pollLoop s (launched s d bin pid args) (iterations i)"
  by (simp add: Start_def StartWithLogFile_def launched_def Let_def)

lemma getClientConfig_launched [simp]:
  "getClientConfig s (launched s' d bin pid args) q = getClientConfig s d q"
  by (simp add: getClientConfig_def launched_def)

lemma queryRootDir_launched [simp]:
  "queryRootDir s (launched s' d bin pid args) q = queryRootDir s d q"
  by (simp add: queryRootDir_def)

lemma requestSent_launched [simp]:
  "requestSent s (launched s' d bin pid args) it a = requestSent s d it a"
  by (simp add: requestSent_def)

lemma failedAttempt_launched [simp]:
  "failedAttempt s (launched s' d bin pid args) = failedAttempt s d"
  by (rule ext) (simp add: failedAttempt_def split: chosen.splits)

lemma id_d_launched [simp]: "id_d (launched s d bin pid args) = id_d d"
  by (simp add: launched_def)

lemma poll_retry:
  "requestSent s d it a \<Longrightarrow> ping_Do a = Completes ms (Inl err) \<Longrightarrow>
     pollLoop s d (it # its) = pollLoop s d its"
  by (auto simp: requestSent_def split: outcome.splits sum.splits)

lemma poll_hang:
  "requestSent s d it a \<Longrightarrow> ping_Do a = NeverCompletes \<Longrightarrow> pollLoop s d (it # its) = (Hang, d)"
  by (auto simp: requestSent_def split: outcome.splits sum.splits)

lemma poll_response:
  "requestSent s d it a \<Longrightarrow> ping_Do a = Completes ms (Inr StatusCode) \<Longrightarrow>
     pollLoop s d (it # its) =
       (case queryRootDir s d (info a) of
          Return (r, Some err) \<Rightarrow>
            (Return (Some (''['' @ id_d d @ ''] error querying daemon for root directory: '' @ err)),
             d\<lparr>root := r\<rparr>)
        | Return (r, None) \<Rightarrow> (Return None, d\<lparr>root := r\<rparr>)
        | Panic \<Rightarrow> (Panic, d)
        | Abort \<Rightarrow> (Abort, d)
        | Hang \<Rightarrow> (Hang, d)
        | Await \<Rightarrow> (Await, d))"
  by (auto simp: requestSent_def split: outcome.splits sum.splits)

lemma poll_failed_prefix:
  "list_all (failedAttempt s d) pre \<Longrightarrow> pollLoop s d (pre @ its) = pollLoop s d its"
proof (induction pre)
  case Nil
  show ?case by simp
next
  case (Cons it pre)
  from Cons.prems obtain a ms err where "requestSent s d it a" "ping_Do a = Completes ms (Inl err)"
    by (auto simp: failedAttempt_def split: chosen.splits do_result.splits sum.splits)
  then have "pollLoop s d (it # pre @ its) = pollLoop s d (pre @ its)"
    by (rule poll_retry)
  with Cons show ?case by simp
qed



text \<open>
  C2, as stated, fails: after a response with status 500 the loop does not go on to the
  next iteration. Here the next \<^verbatim>\<open>select\<close> would have reported the exit of the process;
  \<^verbatim>\<open>Start\<close> has returned \<^verbatim>\<open>nil\<close> before.
\<close>

theorem C2_counterexample:
  "requestSent s0 d_started (tick_at 1 (Completes 3 (Inr 500)) info_ok)
     \<lparr>ping_conf = conf_ok, ping_NewRequest = None, ping_Do = Completes 3 (Inr 500), info = info_ok\<rparr> \<and>
   pollLoop s0 d_started [\<lparr>elapsed = 1, choice = WaitRecv None\<rparr>] =
     (Return (Some ''[d4711] Daemon exited during startup''), d_started) \<and>
   pollLoop s0 d_started
       [tick_at 1 (Completes 3 (Inr 500)) info_ok, \<lparr>elapsed = 1, choice = WaitRecv None\<rparr>] =
     (Return None, d_started\<lparr>root := ''/var/lib/docker''\<rparr>) \<and>
   pollLoop s0 d_started
       [tick_at 1 (Completes 3 (Inr 500)) info_ok, \<lparr>elapsed = 1, choice = WaitRecv None\<rparr>] \<noteq>
     pollLoop s0 d_started [\<lparr>elapsed = 1, choice = WaitRecv None\<rparr>]"
  by (simp add: requestSent_def tick_at_def getClientConfig_def queryRootDir_def conf_ok_def
      info_ok_def s0_def d_started_def)

text \<open>
  C2, amended. An attempt whose request ends in a transport error is followed by the next
  iteration. An attempt whose request is answered ends the loop whatever the status code
  is (a status other than 200 is only logged): \<^verbatim>\<open>Start\<close> goes on to \<^verbatim>\<open>queryRootDir\<close> and
  returns, and the iterations that would have followed play no part.
\<close>

theorem C2_response_ends_polling:
  "requestSent s d it a \<longrightarrow>
     (ping_Do a = Completes ms (Inl err) \<longrightarrow> pollLoop s d (it # its) = pollLoop s d its) \<and>
     (ping_Do a = Completes ms (Inr StatusCode) \<longrightarrow>
        pollLoop s d (it # its) =
          (case queryRootDir s d (info a) of
             Return (r, Some err) \<Rightarrow>
               (Return (Some (''['' @ id_d d @ ''] error querying daemon for root directory: '' @ err)),
                d\<lparr>root := r\<rparr>)
           | Return (r, None) \<Rightarrow> (Return None, d\<lparr>root := r\<rparr>)
           | Panic \<Rightarrow> (Panic, d)
           | Abort \<Rightarrow> (Abort, d)
           | Hang \<Rightarrow> (Hang, d)
           | Await \<Rightarrow> (Await, d)))"
  using poll_retry [of s d it a ms err its] poll_response [of s d it a ms StatusCode its]
  by blast

theorem C2_response_ends_polling_witness:
  "requestSent s0 d_started (tick_at 1 (Completes 3 (Inr 500)) info_ok)
     \<lparr>ping_conf = conf_ok, ping_NewRequest = None, ping_Do = Completes 3 (Inr 500), info = info_ok\<rparr> \<and>
   queryRootDir s0 d_started info_ok = Return (''/var/lib/docker'', None) \<and>
   pollLoop s0 d_started
       [tick_at 1 (Completes 3 (Inr 500)) info_ok, \<lparr>elapsed = 1, choice = WaitRecv None\<rparr>] =
     (Return None, d_started\<lparr>root := ''/var/lib/docker''\<rparr>) \<and>
   requestSent s0 d_started (tick_at 1 (Completes 3 (Inl ''connection refused'')) info_ok)
     \<lparr>ping_conf = conf_ok, ping_NewRequest = None,
      ping_Do = Completes 3 (Inl ''connection refused''), info = info_ok\<rparr> \<and>
   pollLoop s0 d_started
       [tick_at 1 (Completes 3 (Inl ''connection refused'')) info_ok,
        \<lparr>elapsed = 1, choice = WaitRecv None\<rparr>] =
     (Return (Some ''[d4711] Daemon exited during startup''), d_started)"
proof -
  let ?a = "\<lambda>r. \<lparr>ping_conf = conf_ok, ping_NewRequest = None, ping_Do = r, info = info_ok\<rparr>"
  let ?exit = "\<lparr>elapsed = 1, choice = WaitRecv None\<rparr>"
  have h: "requestSent s0 d_started (tick_at 1 r info_ok) (?a r)" for r
    by (simp add: requestSent_def tick_at_def getClientConfig_def conf_ok_def d_started_def)
  have q: "queryRootDir s0 d_started info_ok = Return (''/var/lib/docker'', None)"
    by (simp add: queryRootDir_def getClientConfig_def conf_ok_def info_ok_def s0_def d_started_def)
  have x: "pollLoop s0 d_started [?exit] =
      (Return (Some ''[d4711] Daemon exited during startup''), d_started)"
    by (simp add: d_started_def)
  from C2_response_ends_polling [of s0 d_started "tick_at 1 (Completes 3 (Inr 500)) info_ok"
      "?a (Completes 3 (Inr 500))" 3 _ "[?exit]" 500] h q
  have 1: "pollLoop s0 d_started [tick_at 1 (Completes 3 (Inr 500)) info_ok, ?exit] =
     (Return None, d_started\<lparr>root := ''/var/lib/docker''\<rparr>)"
    by simp
  from C2_response_ends_polling [of s0 d_started
      "tick_at 1 (Completes 3 (Inl ''connection refused'')) info_ok"
      "?a (Completes 3 (Inl ''connection refused''))" 3 "''connection refused''" "[?exit]"] h x
  have 2: "pollLoop s0 d_started
       [tick_at 1 (Completes 3 (Inl ''connection refused'')) info_ok, ?exit] =
     (Return (Some ''[d4711] Daemon exited during startup''), d_started)"
    by (simp del: pollLoop.simps)
  from h q 1 2 show ?thesis by (simp del: pollLoop.simps)
qed

text \<open>
  C4, as stated, fails: an attempt whose request is answered after three seconds makes
  \<^verbatim>\<open>Start\<close> return \<^verbatim>\<open>nil\<close>, and one that is refused after three seconds is followed by the
  next attempt. No timeout error is returned in either run.
\<close>

theorem C4_counterexample:
  "requestSent s0 d_started (tick_at 0 (Completes 3000 (Inr 200)) info_ok)
     \<lparr>ping_conf = conf_ok, ping_NewRequest = None, ping_Do = Completes 3000 (Inr 200), info = info_ok\<rparr> \<and>
   pollLoop s0 d_started [tick_at 0 (Completes 3000 (Inr 200)) info_ok] =
     (Return None, d_started\<lparr>root := ''/var/lib/docker''\<rparr>) \<and>
   pollLoop s0 d_started
       [tick_at 0 (Completes 3000 (Inl ''connection refused'')) info_ok,
        tick_at 3 (Completes 1 (Inr 200)) info_ok] =
     (Return None, d_started\<lparr>root := ''/var/lib/docker''\<rparr>) \<and>
   fst (pollLoop s0 d_started [tick_at 0 (Completes 3000 (Inr 200)) info_ok]) \<noteq>
     Return (Some ''[d4711] timeout: daemon does not respond'')"
  by (simp add: requestSent_def tick_at_def getClientConfig_def queryRootDir_def conf_ok_def
      info_ok_def s0_def d_started_def)

text \<open>
  C4, amended. The two-second timer is a case of the \<^verbatim>\<open>select\<close> beside the tick and the
  exit of the process: when the \<^verbatim>\<open>select\<close> takes it, \<^verbatim>\<open>Start\<close> returns the timeout error.
  It is not a deadline for the request of an attempt. Once the request is sent, \<^verbatim>\<open>Start\<close>
  waits for \<^verbatim>\<open>client.Do\<close> however long it takes: the time it took does not change what
  follows, and when it never completes \<^verbatim>\<open>Start\<close> does not return.
\<close>

theorem C4_timer_is_a_select_case:
  "(elapsed it \<le> 5 \<and> choice it = After2s \<longrightarrow>
      pollLoop s d (it # its) =
        (Return (Some (''['' @ id_d d @ ''] timeout: daemon does not respond'')), d)) \<and>
   (requestSent s d it a \<and> ping_Do a = Completes ms r \<longrightarrow>
      pollLoop s d (it # its) =
        pollLoop s d (it\<lparr>choice := Tick (a\<lparr>ping_Do := Completes ms' r\<rparr>)\<rparr> # its)) \<and>
   (requestSent s d it a \<and> ping_Do a = NeverCompletes \<longrightarrow> pollLoop s d (it # its) = (Hang, d))"
proof (intro conjI impI)
  assume "elapsed it \<le> 5 \<and> choice it = After2s"
  then show "pollLoop s d (it # its) =
      (Return (Some (''['' @ id_d d @ ''] timeout: daemon does not respond'')), d)"
    by simp
next
  assume h: "requestSent s d it a \<and> ping_Do a = Completes ms r"
  let ?a = "a\<lparr>ping_Do := Completes ms' r\<rparr>"
  let ?it = "it\<lparr>choice := Tick ?a\<rparr>"
  from h have sent: "requestSent s d ?it ?a"
    by (simp add: requestSent_def)
  show "pollLoop s d (it # its) = pollLoop s d (?it # its)"
  proof (cases r)
    case (Inl err)
    with h sent show ?thesis
      using poll_retry [of s d it a ms err its] poll_retry [of s d ?it ?a ms' err its] by simp
  next
    case (Inr StatusCode)
    with h sent show ?thesis
      using poll_response [of s d it a ms StatusCode its]
        poll_response [of s d ?it ?a ms' StatusCode its] by simp
  qed
next
  assume "requestSent s d it a \<and> ping_Do a = NeverCompletes"
  then show "pollLoop s d (it # its) = (Hang, d)"
    using poll_hang by blast
qed

theorem C4_timer_is_a_select_case_witness:
  "pollLoop s0 d_started [\<lparr>elapsed = 2, choice = After2s\<rparr>] =
     (Return (Some ''[d4711] timeout: daemon does not respond''), d_started) \<and>
   requestSent s0 d_started (tick_at 0 NeverCompletes info_ok)
     \<lparr>ping_conf = conf_ok, ping_NewRequest = None, ping_Do = NeverCompletes, info = info_ok\<rparr> \<and>
   pollLoop s0 d_started [tick_at 0 NeverCompletes info_ok, \<lparr>elapsed = 2, choice = After2s\<rparr>] =
     (Hang, d_started) \<and>
   requestSent s0 d_started (tick_at 0 (Completes 3000 (Inr 200)) info_ok)
     \<lparr>ping_conf = conf_ok, ping_NewRequest = None, ping_Do = Completes 3000 (Inr 200), info = info_ok\<rparr> \<and>
   pollLoop s0 d_started [tick_at 0 (Completes 3000 (Inr 200)) info_ok] =
     pollLoop s0 d_started [tick_at 0 (Completes 10 (Inr 200)) info_ok]"
proof -
  let ?a = "\<lambda>r. \<lparr>ping_conf = conf_ok, ping_NewRequest = None, ping_Do = r, info = info_ok\<rparr>"
  have h: "requestSent s0 d_started (tick_at 0 r info_ok) (?a r)" for r
    by (simp add: requestSent_def tick_at_def getClientConfig_def conf_ok_def d_started_def)
  have i: "id_d d_started = ''d4711''"
    by (simp add: d_started_def)
  from C4_timer_is_a_select_case [of "\<lparr>elapsed = 2, choice = After2s\<rparr>" s0 d_started "[]"]
  have 1: "pollLoop s0 d_started [\<lparr>elapsed = 2, choice = After2s\<rparr>] =
     (Return (Some ''[d4711] timeout: daemon does not respond''), d_started)"
    by (simp add: i)
  from C4_timer_is_a_select_case [of "tick_at 0 NeverCompletes info_ok" s0 d_started
      "[\<lparr>elapsed = 2, choice = After2s\<rparr>]" "?a NeverCompletes"] h
  have 2: "pollLoop s0 d_started [tick_at 0 NeverCompletes info_ok, \<lparr>elapsed = 2, choice = After2s\<rparr>] =
     (Hang, d_started)"
    by (simp del: pollLoop.simps)
  from C4_timer_is_a_select_case [of "tick_at 0 (Completes 3000 (Inr 200)) info_ok" s0 d_started
      "[]" "?a (Completes 3000 (Inr 200))" 3000 "Inr 200" 10] h
  have 3: "pollLoop s0 d_started [tick_at 0 (Completes 3000 (Inr 200)) info_ok] =
     pollLoop s0 d_started [tick_at 0 (Completes 10 (Inr 200)) info_ok]"
    by (simp del: pollLoop.simps add: tick_at_def)
  from 1 2 3 h show ?thesis by (simp del: pollLoop.simps)
qed

text \<open>
  C5. The process is spawned, every liveness attempt so far has failed, and the \<^verbatim>\<open>select\<close>
  of the next iteration, entered before the deadline of the loop, receives the exit of
  the process from \<^verbatim>\<open>d.wait\<close>: \<^verbatim>\<open>Start\<close> returns \<^verbatim>\<open>Daemon exited during startup\<close> there and
  then, whatever would have followed.
\<close>

theorem C5_exit_during_startup:
  "OpenFile_result i = None \<and> LookPath_result i = Inr bin \<and> cmd_Start i = Inr pid \<and>
   iterations i = pre @ it # rest \<and> list_all (failedAttempt s d) pre \<and>
   elapsed it \<le> 5 \<and> choice it = WaitRecv w \<longrightarrow>
     fst (Start s i d args) = Return (Some (''['' @ id_d d @ ''] Daemon exited during startup''))"
proof (intro impI, elim conjE)
  assume h: "OpenFile_result i = None" "LookPath_result i = Inr bin" "cmd_Start i = Inr pid"
    "iterations i = pre @ it # rest" "list_all (failedAttempt s d) pre"
    "elapsed it \<le> 5" "choice it = WaitRecv w"
  let ?d = "launched s d bin pid args"
  from h(5) have "list_all (failedAttempt s ?d) pre" by simp
  then have "pollLoop s ?d (pre @ it # rest) = pollLoop s ?d (it # rest)"
    by (rule poll_failed_prefix)
  with h show "fst (Start s i d args) =
      Return (Some (''['' @ id_d d @ ''] Daemon exited during startup''))"
    by (simp add: Start_launched [OF h(1,2,3)])
qed

theorem C5_exit_during_startup_witness:
  "list_all (failedAttempt s0 d_new)
     [tick_at 0 (Completes 1 (Inl ''connection refused'')) info_ok,
      tick_at 1 (Completes 1 (Inl ''connection refused'')) info_ok] \<and>
   fst (Start s0
     (spawned [tick_at 0 (Completes 1 (Inl ''connection refused'')) info_ok,
               tick_at 1 (Completes 1 (Inl ''connection refused'')) info_ok,
               \<lparr>elapsed = 1, choice = WaitRecv (Some ''exit status 1'')\<rparr>,
               tick_at 6 (Completes 1 (Inl ''connection refused'')) info_ok])
     d_new []) = Return (Some ''[d4711] Daemon exited during startup'')"
proof -
  let ?pre = "[tick_at 0 (Completes 1 (Inl ''connection refused'')) info_ok,
      tick_at 1 (Completes 1 (Inl ''connection refused'')) info_ok]"
  let ?it = "\<lparr>elapsed = 1, choice = WaitRecv (Some ''exit status 1'')\<rparr>"
  let ?rest = "[tick_at 6 (Completes 1 (Inl ''connection refused'')) info_ok]"
  have f: "list_all (failedAttempt s0 d_new) ?pre"
    by (simp add: failedAttempt_def requestSent_def tick_at_def getClientConfig_def conf_ok_def
        d_new_def)
  have i: "id_d d_new = ''d4711''"
    by (simp add: d_new_def)
  from C5_exit_during_startup [of "spawned (?pre @ ?it # ?rest)" "''/usr/bin/docker''" 4242
      ?pre ?it ?rest s0 d_new "Some ''exit status 1''" "[]"] f
  show ?thesis by (simp add: spawned_def i)
qed



section \<open>Start: the argument vector\<close>

lemma Contains_iff: "Contains s substr \<longleftrightarrow> (\<exists>p q. s = p @ substr @ q)"
proof -
  have pre: "HasPrefix s p \<longleftrightarrow> (\<exists>q. s = p @ q)" for s p
    by (induction s p rule: HasPrefix.induct) auto
  show ?thesis
  proof (induction s)
    case Nil
    show ?case by auto
  next
    case (Cons c cs)
    show ?case
    proof
      assume "Contains (c # cs) substr"
      then consider "HasPrefix (c # cs) substr" | "Contains cs substr" by auto
      then show "\<exists>p q. c # cs = p @ substr @ q"
      proof cases
        case 1
        then obtain q where "c # cs = substr @ q" using pre by blast
        then have "c # cs = [] @ substr @ q" by simp
        then show ?thesis by blast
      next
        case 2
        with Cons obtain p q where "cs = p @ substr @ q" by blast
        then have "c # cs = (c # p) @ substr @ q" by simp
        then show ?thesis by blast
      qed
    next
      assume "\<exists>p q. c # cs = p @ substr @ q"
      then obtain p q where e: "c # cs = p @ substr @ q" by blast
      show "Contains (c # cs) substr"
      proof (cases p)
        case Nil
        with e have "\<exists>q. c # cs = substr @ q" by simp
        then have "HasPrefix (c # cs) substr" using pre [of "c # cs" substr] by simp
        then show ?thesis by simp
      next
        case (Cons x xs)
        with e have "cs = xs @ substr @ q" by simp
        with Cons.IH show ?thesis by auto
      qed
    qed
  qed
qed

lemma scanArgs_found:
  "scanArgs as (foundLog, foundSd) =
     (foundLog \<or> list_ex (\<lambda>a. Contains a ''--log-level'' \<or> Contains a ''-D'' \<or> Contains a ''--debug'') as,
      foundSd \<or> list_ex (\<lambda>a. Contains a ''--storage-driver'') as)"
  by (induction as arbitrary: foundLog foundSd) auto

lemma pollLoop_cmd: "cmd (snd (pollLoop s d its)) = cmd d"
  by (induction its)
    (auto split: chosen.splits outcome.splits sum.splits option.splits do_result.splits prod.splits)

lemma Start_cmd:
  "OpenFile_result i = None \<Longrightarrow> LookPath_result i = Inr bin \<Longrightarrow>
     \<exists>c. cmd (snd (Start s i d args)) = Some c \<and> Args c = bin # startArgs s d args"
  by (cases "cmd_Start i") (simp_all add: Start_def StartWithLogFile_def Let_def pollLoop_cmd)

lemma startArgs_userlandProxy:
  "''--userland-proxy='' @ fmt_t (userlandProxy d) \<in> set (startArgs s d args)"
  by (simp add: startArgs_def Let_def)

text \<open>
  C6. For a daemon with a socket of its own, \<^verbatim>\<open>Start\<close> without arguments builds a vector
  that has \<^verbatim>\<open>--debug\<close> in it and \<^verbatim>\<open>--host\<close> followed by \<^verbatim>\<open>unix://<folder>/docker.sock\<close>. With
  an argument that contains \<^verbatim>\<open>--log-level\<close>, \<^verbatim>\<open>-D\<close> or \<^verbatim>\<open>--debug\<close>, the vector is the fixed
  flags, the host, the optional remap and storage driver, and then the caller's
  arguments: nothing is put between them. The vector is what \<^verbatim>\<open>Start\<close> gives the command.
\<close>

theorem C6_start_arguments:
  "\<not> useDefaultHost d \<and> \<not> useDefaultTLSHost d \<longrightarrow>
     ''--debug'' \<in> set (startArgs s d []) \<and>
     (\<exists>before after.
        startArgs s d [] = before @ [''--host'', ''unix://'' @ folder d @ ''/docker.sock''] @ after) \<and>
     (a \<in> set providedArgs \<and>
      (Contains a ''--log-level'' \<or> Contains a ''-D'' \<or> Contains a ''--debug'') \<longrightarrow>
        startArgs s d providedArgs =
          GlobalFlags d @
          [Command d,
           ''--containerd'', ''/var/run/docker/libcontainerd/docker-containerd.sock'',
           ''--graph'', root d,
           ''--exec-root'', Join s (folder d) ''exec-root'',
           ''--pidfile'', folder d @ ''/docker.pid'',
           ''--userland-proxy='' @ fmt_t (userlandProxy d),
           ''--host'', ''unix://'' @ folder d @ ''/docker.sock''] @
          (if DOCKER_REMAP_ROOT s \<noteq> '''' then [''--userns-remap'', DOCKER_REMAP_ROOT s] else []) @
          (if storageDriver d \<noteq> '''' \<and> \<not> list_ex (\<lambda>a. Contains a ''--storage-driver'') providedArgs
           then [''--storage-driver'', storageDriver d] else []) @
          providedArgs) \<and>
     (OpenFile_result i = None \<and> LookPath_result i = Inr bin \<longrightarrow>
        (\<exists>c. cmd (snd (Start s i d providedArgs)) = Some c \<and>
             Args c = bin # startArgs s d providedArgs))"
proof (intro impI, elim conjE, intro conjI)
  assume mode: "\<not> useDefaultHost d" "\<not> useDefaultTLSHost d"
  show "''--debug'' \<in> set (startArgs s d [])"
    by (simp add: startArgs_def Let_def)
  have "startArgs s d [] =
      (GlobalFlags d @
       [Command d,
        ''--containerd'', ''/var/run/docker/libcontainerd/docker-containerd.sock'',
        ''--graph'', root d,
        ''--exec-root'', Join s (folder d) ''exec-root'',
        ''--pidfile'', folder d @ ''/docker.pid'',
        ''--userland-proxy='' @ fmt_t (userlandProxy d)]) @
      [''--host'', ''unix://'' @ folder d @ ''/docker.sock''] @
      ((if DOCKER_REMAP_ROOT s \<noteq> '''' then [''--userns-remap'', DOCKER_REMAP_ROOT s] else []) @
       [''--debug''] @
       (if storageDriver d \<noteq> '''' then [''--storage-driver'', storageDriver d] else []))"
    using mode by (simp add: startArgs_def sock_def Let_def)
  then show "\<exists>before after.
      startArgs s d [] = before @ [''--host'', ''unix://'' @ folder d @ ''/docker.sock''] @ after"
    by blast
  show "a \<in> set providedArgs \<and>
      (Contains a ''--log-level'' \<or> Contains a ''-D'' \<or> Contains a ''--debug'') \<longrightarrow>
        startArgs s d providedArgs =
          GlobalFlags d @
          [Command d,
           ''--containerd'', ''/var/run/docker/libcontainerd/docker-containerd.sock'',
           ''--graph'', root d,
           ''--exec-root'', Join s (folder d) ''exec-root'',
           ''--pidfile'', folder d @ ''/docker.pid'',
           ''--userland-proxy='' @ fmt_t (userlandProxy d),
           ''--host'', ''unix://'' @ folder d @ ''/docker.sock''] @
          (if DOCKER_REMAP_ROOT s \<noteq> '''' then [''--userns-remap'', DOCKER_REMAP_ROOT s] else []) @
          (if storageDriver d \<noteq> '''' \<and> \<not> list_ex (\<lambda>a. Contains a ''--storage-driver'') providedArgs
           then [''--storage-driver'', storageDriver d] else []) @
          providedArgs"
  proof
    assume "a \<in> set providedArgs \<and>
      (Contains a ''--log-level'' \<or> Contains a ''-D'' \<or> Contains a ''--debug'')"
    then have "list_ex (\<lambda>a. Contains a ''--log-level'' \<or> Contains a ''-D'' \<or> Contains a ''--debug'')
        providedArgs"
      by (auto simp: list_ex_iff)
    with mode show "startArgs s d providedArgs =
          GlobalFlags d @
          [Command d,
           ''--containerd'', ''/var/run/docker/libcontainerd/docker-containerd.sock'',
           ''--graph'', root d,
           ''--exec-root'', Join s (folder d) ''exec-root'',
           ''--pidfile'', folder d @ ''/docker.pid'',
           ''--userland-proxy='' @ fmt_t (userlandProxy d),
           ''--host'', ''unix://'' @ folder d @ ''/docker.sock''] @
          (if DOCKER_REMAP_ROOT s \<noteq> '''' then [''--userns-remap'', DOCKER_REMAP_ROOT s] else []) @
          (if storageDriver d \<noteq> '''' \<and> \<not> list_ex (\<lambda>a. Contains a ''--storage-driver'') providedArgs
           then [''--storage-driver'', storageDriver d] else []) @
          providedArgs"
      by (simp add: startArgs_def sock_def scanArgs_found Let_def)
  qed
  show "OpenFile_result i = None \<and> LookPath_result i = Inr bin \<longrightarrow>
        (\<exists>c. cmd (snd (Start s i d providedArgs)) = Some c \<and>
             Args c = bin # startArgs s d providedArgs)"
    using Start_cmd by blast
qed

theorem C6_start_arguments_witness:
  "\<not> useDefaultHost d_new \<and> \<not> useDefaultTLSHost d_new \<and> folder d_new = ''/tmp/d1'' \<and>
   ''--debug'' \<in> set (startArgs s0 d_new []) \<and>
   Contains ''--log-level=warn'' ''--log-level'' \<and>
   startArgs s0 d_new [''--log-level=warn''] =
     [''daemon'',
      ''--containerd'', ''/var/run/docker/libcontainerd/docker-containerd.sock'',
      ''--graph'', ''/tmp/d1/root'',
      ''--exec-root'', ''/tmp/d1/exec-root'',
      ''--pidfile'', ''/tmp/d1/docker.pid'',
      ''--userland-proxy=true'',
      ''--host'', ''unix:///tmp/d1/docker.sock'',
      ''--log-level=warn''] \<and>
   OpenFile_result (spawned []) = None \<and> LookPath_result (spawned []) = Inr ''/usr/bin/docker'' \<and>
   (\<exists>c. cmd (snd (Start s0 (spawned []) d_new [''--log-level=warn''])) = Some c \<and>
        Args c = ''/usr/bin/docker'' # startArgs s0 d_new [''--log-level=warn''])"
proof -
  have h: "\<not> useDefaultHost d_new \<and> \<not> useDefaultTLSHost d_new \<and> folder d_new = ''/tmp/d1''"
    by (simp add: d_new_def)
  have c: "Contains ''--log-level=warn'' ''--log-level''"
    by simp
  have o: "OpenFile_result (spawned []) = None \<and> LookPath_result (spawned []) = Inr ''/usr/bin/docker''"
    by (simp add: spawned_def)
  note inst = C6_start_arguments [of d_new s0 "''--log-level=warn''" "[''--log-level=warn'']"
      "spawned []" "''/usr/bin/docker''"]
  from inst h have 1: "''--debug'' \<in> set (startArgs s0 d_new [])"
    by blast
  from inst h c have 2: "startArgs s0 d_new [''--log-level=warn''] =
     [''daemon'',
      ''--containerd'', ''/var/run/docker/libcontainerd/docker-containerd.sock'',
      ''--graph'', ''/tmp/d1/root'',
      ''--exec-root'', ''/tmp/d1/exec-root'',
      ''--pidfile'', ''/tmp/d1/docker.pid'',
      ''--userland-proxy=true'',
      ''--host'', ''unix:///tmp/d1/docker.sock'',
      ''--log-level=warn'']"
    by (simp add: d_new_def s0_def fmt_t_def)
  from inst h o have 3: "\<exists>c. cmd (snd (Start s0 (spawned []) d_new [''--log-level=warn''])) = Some c \<and>
        Args c = ''/usr/bin/docker'' # startArgs s0 d_new [''--log-level=warn'']"
    by blast
  from h c o 1 2 3 show ?thesis by blast
qed

section \<open>NewDaemon: the userland proxy\<close>

text \<open>
  C9. When \<^verbatim>\<open>DOCKER_USERLANDPROXY\<close> holds a string that \<^verbatim>\<open>strconv.ParseBool\<close> accepts, be it a
  true or a false one, \<^verbatim>\<open>NewDaemon\<close> leaves \<^verbatim>\<open>userlandProxy\<close> at \<^verbatim>\<open>true\<close> and \<^verbatim>\<open>Start\<close> passes
  \<^verbatim>\<open>--userland-proxy=true\<close>. The parsed value is assigned only when parsing fails; it is
  \<^verbatim>\<open>false\<close> then, and \<^verbatim>\<open>Start\<close> passes \<^verbatim>\<open>--userland-proxy=false\<close>.
\<close>

theorem C9_userland_proxy:
  "NewDaemon s n = Return d \<longrightarrow>
     (snd (ParseBool (DOCKER_USERLANDPROXY s)) = None \<longrightarrow>
        userlandProxy d \<and> ''--userland-proxy=true'' \<in> set (startArgs s' d args)) \<and>
     (DOCKER_USERLANDPROXY s \<noteq> '''' \<and> snd (ParseBool (DOCKER_USERLANDPROXY s)) \<noteq> None \<longrightarrow>
        \<not> userlandProxy d \<and> ''--userland-proxy=false'' \<in> set (startArgs s' d args))"
proof
  assume new: "NewDaemon s n = Return d"
  have flag: "userlandProxy d =
      (if DOCKER_USERLANDPROXY s \<noteq> '''' \<and> snd (ParseBool (DOCKER_USERLANDPROXY s)) \<noteq> None
       then fst (ParseBool (DOCKER_USERLANDPROXY s)) else True)"
    using new
    by (auto simp: NewDaemon_def Let_def split: if_splits sum.splits option.splits prod.splits)
  have failed: "snd (ParseBool x) \<noteq> None \<Longrightarrow> \<not> fst (ParseBool x)" for x
    by (simp add: ParseBool_def split: if_splits)
  from flag failed startArgs_userlandProxy [of d s' args]
  show "(snd (ParseBool (DOCKER_USERLANDPROXY s)) = None \<longrightarrow>
        userlandProxy d \<and> ''--userland-proxy=true'' \<in> set (startArgs s' d args)) \<and>
     (DOCKER_USERLANDPROXY s \<noteq> '''' \<and> snd (ParseBool (DOCKER_USERLANDPROXY s)) \<noteq> None \<longrightarrow>
        \<not> userlandProxy d \<and> ''--userland-proxy=false'' \<in> set (startArgs s' d args))"
    by (auto simp: fmt_t_def)
qed

theorem C9_userland_proxy_witness:
  "ParseBool ''false'' = (False, None) \<and>
   NewDaemon (s0\<lparr>DOCKER_USERLANDPROXY := ''false''\<rparr>) n0 =
     Return (d_new\<lparr>folder := ''/tmp/d4711'', root := ''/tmp/d4711/root''\<rparr>) \<and>
   userlandProxy (d_new\<lparr>folder := ''/tmp/d4711'', root := ''/tmp/d4711/root''\<rparr>) \<and>
   ''--userland-proxy=true'' \<in>
     set (startArgs s0 (d_new\<lparr>folder := ''/tmp/d4711'', root := ''/tmp/d4711/root''\<rparr>) []) \<and>
   ParseBool ''yes'' = (False, Some ''invalid syntax'') \<and>
   NewDaemon (s0\<lparr>DOCKER_USERLANDPROXY := ''yes''\<rparr>) n0 =
     Return (d_new\<lparr>folder := ''/tmp/d4711'', root := ''/tmp/d4711/root'', userlandProxy := False\<rparr>) \<and>
   ''--userland-proxy=false'' \<in>
     set (startArgs s0
       (d_new\<lparr>folder := ''/tmp/d4711'', root := ''/tmp/d4711/root'', userlandProxy := False\<rparr>) [])"
proof -
  let ?d = "d_new\<lparr>folder := ''/tmp/d4711'', root := ''/tmp/d4711/root''\<rparr>"
  have p: "ParseBool ''false'' = (False, None)"
    and y: "ParseBool ''yes'' = (False, Some ''invalid syntax'')"
    by (simp_all add: ParseBool_def)
  have g: "go_rem 1461234500000004711 100000000 = 4711"
    by (simp add: go_rem_def)
  have f: "fmt_d 4711 = ''4711''"
    by (simp add: fmt_d_def)
  have new: "NewDaemon (s0\<lparr>DOCKER_USERLANDPROXY := ''false''\<rparr>) n0 = Return ?d"
    by (simp add: NewDaemon_def Let_def s0_def n0_def d_new_def p g f)
  have new': "NewDaemon (s0\<lparr>DOCKER_USERLANDPROXY := ''yes''\<rparr>) n0 =
      Return (?d\<lparr>userlandProxy := False\<rparr>)"
    by (simp add: NewDaemon_def Let_def s0_def n0_def d_new_def y g f)
  from C9_userland_proxy [of "s0\<lparr>DOCKER_USERLANDPROXY := ''false''\<rparr>" n0 ?d s0 "[]"] new p
  have 1: "userlandProxy ?d \<and> ''--userland-proxy=true'' \<in> set (startArgs s0 ?d [])"
    by simp
  from C9_userland_proxy [of "s0\<lparr>DOCKER_USERLANDPROXY := ''yes''\<rparr>" n0
      "?d\<lparr>userlandProxy := False\<rparr>" s0 "[]"] new' y
  have 2: "''--userland-proxy=false'' \<in> set (startArgs s0 (?d\<lparr>userlandProxy := False\<rparr>) [])"
    by simp
  from p y new new' 1 2 show ?thesis by simp
qed

end
